theory Spec2Isabelle
  imports Main
begin

section \<open>Family declarations (lib/exabgp/configuration/bgp/family.py)\<close>

text \<open>
  \<^verbatim>\<open>SectionFamily\<close> builds \<^verbatim>\<open>self.content\<close>, a dictionary from an AFI to the list
  of SAFIs announced for it. A method that raises leaves the dictionary as it was at the
  raise, so every operation returns the raised error (if any) together with the content.
\<close>

datatype error = RaisedFamily string

type_synonym ('a, 's) content = "'a \<rightharpoonup> 's list"

text \<open>
  The classes \<^verbatim>\<open>AFI\<close> and \<^verbatim>\<open>SAFI\<close> (exabgp.protocol.family) and the method
  \<^verbatim>\<open>Section._check_duplicate\<close> are not part of the sources at hand; they are parameters:
  \<open>AFI_value n\<close> stands for \<^verbatim>\<open>AFI(AFI.value(n))\<close>, \<open>SAFI_value n\<close> for
  \<^verbatim>\<open>SAFI(SAFI.value(n))\<close>, and \<open>check_duplicate c\<close> is the error that
  \<^verbatim>\<open>self._check_duplicate(tokeniser,RaisedFamily)\<close> raises on the content \<open>c\<close>, if any.
\<close>

record ('a, 's) family_env =
  check_duplicate :: "('a, 's) content \<Rightarrow> error option"
  AFI_value :: "string \<Rightarrow> 'a"
  SAFI_value :: "string \<Rightarrow> 's"

text \<open>
  Modelled from the spec: \<^verbatim>\<open>AFI.implemented_safi\<close> is missing from the sources; the table
  is the one of the configuration grammar (also the \<^verbatim>\<open>syntax_family\<close> text of family.py):
  ipv4 [ unicast multicast nlri-mpls mpls-vpn flow flow-vpn ], ipv6 [ unicast flow flow-vpn ],
  l2vpn [ vpls ].
\<close>

definition implemented_safi :: "string \<Rightarrow> string list" where
  "implemented_safi afi_name =
     (if afi_name = ''ipv4''
        then [''unicast'', ''multicast'', ''nlri-mpls'', ''mpls-vpn'', ''flow'', ''flow-vpn'']
      else if afi_name = ''ipv6'' then [''unicast'', ''flow'', ''flow-vpn'']
      else if afi_name = ''l2vpn'' then [''vpls'']
      else [])"

definition unimplemented_message :: "string \<Rightarrow> string \<Rightarrow> string" where
  "unimplemented_message afi_name safi_name =
     ''the family pair afi/safi '' @ afi_name @ ''/'' @ safi_name @ '' is unimplemented''"

definition duplicate_message :: string where
  "duplicate_message = ''afi/safi pair already defined in this family''"

text \<open>
  The loop of \<^verbatim>\<open>_add\<close> over \<^verbatim>\<open>safi_names\<close>; \<open>known\<close> is the list stored under the
  AFI, which \<^verbatim>\<open>known.append(safi)\<close> extends in place.
\<close>

fun add_safis ::
  "('a, 's) family_env \<Rightarrow> string \<Rightarrow> string list \<Rightarrow> 's list \<Rightarrow> error option \<times> 's list" where
  "add_safis sec afi_name [] known = (None, known)"
| "add_safis sec afi_name (safi_name # safi_names) known =
     (if safi_name \<notin> set (implemented_safi afi_name)
        then (Some (RaisedFamily (unimplemented_message afi_name safi_name)), known)
      else if SAFI_value sec safi_name \<in> set known
        then (Some (RaisedFamily duplicate_message), known)
      else add_safis sec afi_name safi_names (known @ [SAFI_value sec safi_name]))"

text \<open>\<^verbatim>\<open>content.setdefault(key, [])\<close>: the stored list, or a new empty one stored under the key.\<close>

definition setdefault_list :: "('a, 's) content \<Rightarrow> 'a \<Rightarrow> 's list" where
  "setdefault_list c k = (case c k of None \<Rightarrow> [] | Some known \<Rightarrow> known)"

definition SectionFamily_add ::
  "('a, 's) family_env \<Rightarrow> string \<Rightarrow> string list \<Rightarrow> ('a, 's) content
     \<Rightarrow> error option \<times> ('a, 's) content" where
  "SectionFamily_add sec afi_name safi_names c =
     (case check_duplicate sec c of
        Some e \<Rightarrow> (Some e, c)
      | None \<Rightarrow>
          (let key = AFI_value sec afi_name;
               r = add_safis sec afi_name safi_names (setdefault_list c key)
           in (fst r, c(key \<mapsto> snd r))))"

text \<open>
  Iterating over a Python string yields its characters, each a string of length one.
\<close>

definition characters :: "string \<Rightarrow> string list" where
  "characters s = map (\<lambda>ch. [ch]) s"

text \<open>
  \<^verbatim>\<open>all\<close>: the inner loop over \<^verbatim>\<open>AFI.implemented_safi(afi_name)\<close> passes each
  \<^verbatim>\<open>safi_name\<close>, a string, as the \<^verbatim>\<open>safi_names\<close> argument of \<^verbatim>\<open>_add\<close>, whose loop
  then runs over the characters of that string.
\<close>

fun all_safi_names ::
  "('a, 's) family_env \<Rightarrow> string \<Rightarrow> string list \<Rightarrow> ('a, 's) content
     \<Rightarrow> error option \<times> ('a, 's) content" where
  "all_safi_names sec afi_name [] c = (None, c)"
| "all_safi_names sec afi_name (safi_name # rest) c =
     (case SectionFamily_add sec afi_name (characters safi_name) c of
        (Some e, c') \<Rightarrow> (Some e, c')
      | (None, c') \<Rightarrow> all_safi_names sec afi_name rest c')"

fun all_afi_names ::
  "('a, 's) family_env \<Rightarrow> string list \<Rightarrow> ('a, 's) content \<Rightarrow> error option \<times> ('a, 's) content" where
  "all_afi_names sec [] c = (None, c)"
| "all_afi_names sec (afi_name # rest) c =
     (case all_safi_names sec afi_name (implemented_safi afi_name) c of
        (Some e, c') \<Rightarrow> (Some e, c')
      | (None, c') \<Rightarrow> all_afi_names sec rest c')"

definition SectionFamily_all ::
  "('a, 's) family_env \<Rightarrow> ('a, 's) content \<Rightarrow> error option \<times> ('a, 's) content" where
  "SectionFamily_all sec c = all_afi_names sec [''ipv4'', ''ipv6'', ''l2vpn''] c"

text \<open>A section whose duplicate check passes and whose AFI and SAFI objects are their names.\<close>

definition plain_section :: "(string, string) family_env" where
  "plain_section = \<lparr>check_duplicate = (\<lambda>c. None), AFI_value = (\<lambda>n. n), SAFI_value = (\<lambda>n. n)\<rparr>"

section \<open>Python strings and numbers\<close>

text \<open>
  A Python \<^verbatim>\<open>str\<close> is a \<open>string\<close>, each \<open>char\<close> standing for the code point of
  the same number (code points below 256); the line of the teardown command, whose
  characters are tested for being digits, is the list of its code points, whatever they
  are (\<open>ustring\<close> below). Python's integers are \<open>int\<close>. The exceptions that the modelled
  code can raise are values of \<open>exc\<close>.
\<close>

datatype exc = ValueError | IndexError | KeyError | TypeError | OverflowError

definition space :: char where
  "space = CHR '' ''"

definition newline :: char where
  "newline = CHR 0x0A"

text \<open>\<^verbatim>\<open>str(n)\<close> of an integer: its decimal digits, after a minus sign when negative.\<close>

definition digit_char :: "nat \<Rightarrow> char" where
  "digit_char d = ''0123456789'' ! d"

fun str_nat :: "nat \<Rightarrow> string" where
  "str_nat n = (if n < 10 then [digit_char n] else str_nat (n div 10) @ [digit_char (n mod 10)])"

declare str_nat.simps [simp del]

definition str_int :: "int \<Rightarrow> string" where
  "str_int i = (if i < 0 then CHR ''-'' # str_nat (nat (- i)) else str_nat (nat i))"

text \<open>
  The conversions of the \<^verbatim>\<open>%\<close> operator: \<^verbatim>\<open>%-Ns\<close> pads on the right, \<^verbatim>\<open>%Ns\<close> and
  \<^verbatim>\<open>%Nd\<close> pad on the left, \<^verbatim>\<open>%0Nd\<close> pads with zeros after the sign; none truncates.
\<close>

definition ljust :: "nat \<Rightarrow> string \<Rightarrow> string" where
  "ljust w s = s @ replicate (w - length s) space"

definition rjust :: "nat \<Rightarrow> string \<Rightarrow> string" where
  "rjust w s = replicate (w - length s) space @ s"

definition zero_pad :: "nat \<Rightarrow> int \<Rightarrow> string" where
  "zero_pad w i =
     (if i < 0
        then CHR ''-'' # replicate (w - 1 - length (str_nat (nat (- i)))) CHR ''0'' @ str_nat (nat (- i))
      else replicate (w - length (str_nat (nat i))) CHR ''0'' @ str_nat (nat i))"

text \<open>
  \<^verbatim>\<open>timedelta(seconds=n)\<close> for an integer \<open>n\<close> normalises to days and seconds of the day
  and raises OverflowError beyond 999999999 days; \<^verbatim>\<open>str\<close> of it is
  \<^verbatim>\<open>[D day[s], ]H:MM:SS\<close>.
\<close>

definition timedelta :: "int \<Rightarrow> exc + int \<times> int" where
  "timedelta n =
     (let days = n div 86400; seconds = n mod 86400
      in if \<bar>days\<bar> > 999999999 then Inl OverflowError else Inr (days, seconds))"

definition str_timedelta :: "int \<times> int \<Rightarrow> string" where
  "str_timedelta td =
     (let days = fst td; seconds = snd td;
          mm = seconds div 60; ss = seconds mod 60;
          hh = mm div 60; mm = mm mod 60;
          s = str_int hh @ '':'' @ zero_pad 2 mm @ '':'' @ zero_pad 2 ss
      in if days \<noteq> 0
           then str_int days @ '' day'' @ (if \<bar>days\<bar> \<noteq> 1 then ''s'' else []) @ '', '' @ s
         else s)"

text \<open>
  \<^verbatim>\<open>str.lower()\<close>: below 256 the cased upper-case letters are A to Z and the Latin-1
  letters 0xC0 to 0xDE without the multiplication sign 0xD7; each maps 32 code points up.
\<close>

definition lower_char :: "char \<Rightarrow> char" where
  "lower_char c =
     (let n = (of_char c :: nat)
      in if (65 \<le> n \<and> n \<le> 90) \<or> (192 \<le> n \<and> n \<le> 222 \<and> n \<noteq> 215) then char_of (n + 32) else c)"

definition lower :: "string \<Rightarrow> string" where
  "lower s = map lower_char s"

text \<open>
  \<^verbatim>\<open>str.split()\<close> splits at runs of whitespace and yields no empty word. Below 256 the
  whitespace characters are 9 to 13, 28 to 32, 0x85 and 0xA0.
\<close>

definition isspace :: "char \<Rightarrow> bool" where
  "isspace c =
     (let n = (of_char c :: nat)
      in (9 \<le> n \<and> n \<le> 13) \<or> (28 \<le> n \<and> n \<le> 32) \<or> n = 133 \<or> n = 160)"

fun split_words :: "string \<Rightarrow> string \<Rightarrow> string list" where
  "split_words cur [] = (if cur = [] then [] else [cur])"
| "split_words cur (c # cs) =
     (if isspace c then (if cur = [] then split_words [] cs else cur # split_words [] cs)
      else split_words (cur @ [c]) cs)"

definition str_split :: "string \<Rightarrow> string list" where
  "str_split s = split_words [] s"

text \<open>\<^verbatim>\<open>s.split(sep)\<close> for a separator of one character: empty pieces are kept.\<close>

fun split_pieces :: "char \<Rightarrow> string \<Rightarrow> string \<Rightarrow> string list" where
  "split_pieces sep cur [] = [cur]"
| "split_pieces sep cur (c # cs) =
     (if c = sep then cur # split_pieces sep [] cs else split_pieces sep (cur @ [c]) cs)"

definition split_on :: "char \<Rightarrow> string \<Rightarrow> string list" where
  "split_on sep s = split_pieces sep [] s"

text \<open>\<^verbatim>\<open>sep.join(xs)\<close>.\<close>

fun join :: "'a list \<Rightarrow> 'a list list \<Rightarrow> 'a list" where
  "join sep [] = []"
| "join sep [x] = x"
| "join sep (x # y # ys) = x @ sep @ join sep (y # ys)"

text \<open>\<^verbatim>\<open>x in s\<close> for strings: \<open>x\<close> occurs in \<open>s\<close> as a contiguous substring.\<close>

fun starts_with :: "string \<Rightarrow> string \<Rightarrow> bool" where
  "starts_with [] s = True"
| "starts_with (x # xs) [] = False"
| "starts_with (x # xs) (c # cs) = (x = c \<and> starts_with xs cs)"

fun contains :: "string \<Rightarrow> string \<Rightarrow> bool" where
  "contains x [] = (x = [])"
| "contains x (c # cs) = (starts_with x (c # cs) \<or> contains x cs)"

text \<open>
  A \<^verbatim>\<open>str\<close> as the list of its code points; \<open>ustr\<close> is the string of a literal.
\<close>

type_synonym ustring = "nat list"

definition ustr :: "string \<Rightarrow> ustring" where
  "ustr s = map of_char s"

text \<open>
  The interpreter. The conversions of a string of digits depend on two things that the
  sources do not fix: the limit on the number of digits that \<^verbatim>\<open>int\<close> converts
  (\<^verbatim>\<open>sys.get_int_max_str_digits()\<close>: 4300 by default, 0 for no limit, else at least
  640) and the Unicode data the interpreter is built with. Of the latter, \<open>unicode_decimal c\<close> is the digit value
  of a decimal digit \<open>c\<close> (category Nd) other than 0 to 9, such as the Arabic-Indic digits,
  and \<open>unicode_digit c\<close> says that \<open>c\<close> is a digit that is not decimal, such as a
  superscript or a circled digit.
\<close>

record python =
  max_str_digits :: nat
  unicode_decimal :: "nat \<Rightarrow> nat option"
  unicode_digit :: "nat \<Rightarrow> bool"

text \<open>The characters 0 to 9, and the strings that match \<^verbatim>\<open>^[0-9]+$\<close> with their value.\<close>

definition decimal_char :: "nat \<Rightarrow> bool" where
  "decimal_char c = (48 \<le> c \<and> c \<le> 57)"

definition all_decimal :: "ustring \<Rightarrow> bool" where
  "all_decimal s = (s \<noteq> [] \<and> list_all decimal_char s)"

definition decimal_value :: "ustring \<Rightarrow> int" where
  "decimal_value s = foldl (\<lambda>n c. 10 * n + int (c - 48)) 0 s"

text \<open>
  \<^verbatim>\<open>str.isdigit()\<close>: the string is not empty and every character is a digit, decimal
  or not.
\<close>

definition digit_value :: "python \<Rightarrow> nat \<Rightarrow> nat option" where
  "digit_value py c = (if decimal_char c then Some (c - 48) else unicode_decimal py c)"

definition isdigit_char :: "python \<Rightarrow> nat \<Rightarrow> bool" where
  "isdigit_char py c = (digit_value py c \<noteq> None \<or> unicode_digit py c)"

definition isdigit :: "python \<Rightarrow> ustring \<Rightarrow> bool" where
  "isdigit py s = (s \<noteq> [] \<and> list_all (isdigit_char py) s)"

text \<open>
  \<^verbatim>\<open>int(code)\<close> on a string that passed \<^verbatim>\<open>isdigit\<close>: ValueError if a character is not
  a decimal digit, or if the string has more characters than the limit; else the number
  that the digit values make in base ten. Integers are unbounded.
\<close>

definition int_of_digits :: "python \<Rightarrow> ustring \<Rightarrow> exc + int" where
  "int_of_digits py s =
     (if s = [] \<or> \<not> list_all (\<lambda>c. digit_value py c \<noteq> None) s then Inl ValueError
      else if max_str_digits py \<noteq> 0 \<and> max_str_digits py < length s then Inl ValueError
      else Inr (foldl (\<lambda>n c. 10 * n + (case digit_value py c of None \<Rightarrow> 0 | Some d \<Rightarrow> int d))
                  0 s))"

section \<open>Session snapshots and their rendering (reactor/api/command/neighbor.py)\<close>

text \<open>
  The dictionary \<^verbatim>\<open>answer\<close> that \<^verbatim>\<open>reactor.neighbor_cli_data\<close> returns. A value that may be
  \<^verbatim>\<open>None\<close> is an option: the three-valued flags of capabilities and families are
  \<open>bool option\<close>, the AS, router id and hold time are given by their \<^verbatim>\<open>%s\<close> rendering.
  The inner dictionaries are association lists in iteration order.
\<close>

type_synonym flag = "bool option"

record answer =
  local_address :: string
  peer_address :: string
  local_as :: "string option"
  peer_as :: "string option"
  local_id :: "string option"
  peer_id :: "string option"
  local_hold :: "string option"
  peer_hold :: "string option"
  state :: string
  duration :: "int option"
  down :: "int option"
  capabilities :: "(string \<times> flag \<times> flag) list"
  families :: "((string \<times> string) \<times> flag \<times> flag \<times> flag \<times> flag) list"
  messages :: "(string \<times> int \<times> int) list"

text \<open>Truth of a Python value in a condition: \<^verbatim>\<open>None\<close>, \<^verbatim>\<open>False\<close> and \<^verbatim>\<open>0\<close> are false;
  \<open>nonzero v\<close> is the number \<open>v\<close> when it is true, and \<open>None\<close> when it is false.\<close>

definition truthy :: "flag \<Rightarrow> bool" where
  "truthy v = (v = Some True)"

definition nonzero :: "int option \<Rightarrow> int option" where
  "nonzero v = (case v of None \<Rightarrow> None | Some n \<Rightarrow> if n \<noteq> 0 then Some n else None)"

text \<open>\<^verbatim>\<open>'%s' % value\<close> of a value that may be \<^verbatim>\<open>None\<close>.\<close>

definition str_value :: "string option \<Rightarrow> string" where
  "str_value v = (case v of None \<Rightarrow> ''None'' | Some s \<Rightarrow> s)"

definition en :: "flag \<Rightarrow> string" where
  "en v = (case v of None \<Rightarrow> ''n/a'' | Some b \<Rightarrow> if b then ''enabled'' else ''disabled'')"

definition pr :: "string option \<Rightarrow> string" where
  "pr v = (case v of None \<Rightarrow> ''n/a'' | Some s \<Rightarrow> s)"

definition addpath :: "flag \<Rightarrow> flag \<Rightarrow> string" where
  "addpath send receive =
     (if truthy send \<and> truthy receive then ''send/receive''
      else if truthy send then ''send''
      else if truthy receive then ''receive''
      else ''disabled'')"

text \<open>\<^verbatim>\<open>d[k] = v\<close> on a dictionary kept as an association list in insertion order.\<close>

fun dict_set :: "'k \<Rightarrow> 'v \<Rightarrow> ('k \<times> 'v) list \<Rightarrow> ('k \<times> 'v) list" where
  "dict_set k v [] = [(k, v)]"
| "dict_set k v ((k', v') # d) = (if k' = k then (k, v) # d else (k', v') # dict_set k v d)"

subsection \<open>\<^verbatim>\<open>Neighbor.as_dict\<close>\<close>

record side =
  side_capabilities :: "(string \<times> flag) list"
  side_families :: "(string \<times> flag) list"
  side_add_path :: "(string \<times> flag) list"
  side_address :: "string option"
  side_as :: "string option"
  side_id :: "string option"
  side_hold :: "string option"

record formated =
  out_state :: string
  out_duration :: "int option"
  out_fsm :: string
  out_local :: side
  out_peer :: side
  out_sent :: "(string \<times> int) list"
  out_received :: "(string \<times> int) list"
  out_capabilities :: "string list"
  out_families :: "string list"
  out_add_path :: "(string \<times> string) list"

definition empty_side :: side where
  "empty_side = \<lparr>side_capabilities = [], side_families = [], side_add_path = [],
     side_address = None, side_as = None, side_id = None, side_hold = None\<rparr>"

text \<open>The key \<^verbatim>\<open>'%s %s' % (a, s)\<close> of a family.\<close>

definition family_key :: "string \<times> string \<Rightarrow> string" where
  "family_key as = fst as @ '' '' @ snd as"

text \<open>One round of the loop \<^verbatim>\<open>for (a, s), (l, p, aps, apr) in answer['families'].items()\<close>.\<close>

definition as_dict_family ::
  "formated \<Rightarrow> (string \<times> string) \<times> flag \<times> flag \<times> flag \<times> flag \<Rightarrow> formated" where
  "as_dict_family f item =
     (case item of (as, l, p, aps, apr) \<Rightarrow>
        (let k = family_key as
         in f\<lparr>out_local := (out_local f)
                 \<lparr>side_families := dict_set k l (side_families (out_local f)),
                  side_add_path := dict_set k aps (side_add_path (out_local f))\<rparr>,
               out_peer := (out_peer f)
                 \<lparr>side_families := dict_set k p (side_families (out_peer f)),
                  side_add_path := dict_set k apr (side_add_path (out_peer f))\<rparr>,
               out_families := (if truthy l \<and> truthy p then out_families f @ [k] else out_families f),
               out_add_path := dict_set k (addpath aps apr) (out_add_path f)\<rparr>))"

text \<open>One round of the loop \<^verbatim>\<open>for k, (l, p) in answer['capabilities'].items()\<close>.\<close>

definition as_dict_capability :: "formated \<Rightarrow> string \<times> flag \<times> flag \<Rightarrow> formated" where
  "as_dict_capability f item =
     (case item of (k, l, p) \<Rightarrow>
        f\<lparr>out_local := (out_local f)
             \<lparr>side_capabilities := dict_set k l (side_capabilities (out_local f))\<rparr>,
           out_peer := (out_peer f)
             \<lparr>side_capabilities := dict_set k p (side_capabilities (out_peer f))\<rparr>,
           out_capabilities :=
             (if truthy l \<and> truthy p then out_capabilities f @ [k] else out_capabilities f)\<rparr>)"

text \<open>One round of the loop \<^verbatim>\<open>for k, (s, r) in answer['messages'].items()\<close>.\<close>

definition as_dict_message :: "formated \<Rightarrow> string \<times> int \<times> int \<Rightarrow> formated" where
  "as_dict_message f item =
     (case item of (k, s, r) \<Rightarrow>
        f\<lparr>out_sent := dict_set k s (out_sent f), out_received := dict_set k r (out_received f)\<rparr>)"

definition as_dict :: "answer \<Rightarrow> formated" where
  "as_dict answer =
     (let up = (nonzero (duration answer) \<noteq> None);
          f0 = \<lparr>out_state = (if up then ''up'' else ''down''),
                out_duration = (if up then duration answer else down answer),
                out_fsm = state answer,
                out_local = empty_side, out_peer = empty_side,
                out_sent = [], out_received = [],
                out_capabilities = [], out_families = [], out_add_path = []\<rparr>;
          f1 = foldl as_dict_family f0 (families answer);
          f2 = foldl as_dict_capability f1 (capabilities answer);
          f3 = foldl as_dict_message f2 (messages answer)
      in f3\<lparr>out_local := (out_local f3)
                \<lparr>side_address := Some (local_address answer), side_as := local_as answer,
                 side_id := local_id answer, side_hold := local_hold answer\<rparr>,
              out_peer := (out_peer f3)
                \<lparr>side_address := Some (peer_address answer), side_as := peer_as answer,
                 side_id := peer_id answer, side_hold := peer_hold answer\<rparr>\<rparr>)"

subsection \<open>\<^verbatim>\<open>Neighbor.extensive\<close>\<close>

text \<open>\<^verbatim>\<open>extensive_kv = '   %-20s %15s %15s %15s'\<close>.\<close>

definition extensive_kv :: "string \<Rightarrow> string \<Rightarrow> string \<Rightarrow> string \<Rightarrow> string" where
  "extensive_kv a b c d = ''   '' @ ljust 20 a @ '' '' @ rjust 15 b @ '' '' @ rjust 15 c @ '' '' @ rjust 15 d"

text \<open>
  The row of one family. The tuple is taken apart as \<^verbatim>\<open>(l, r, apr, aps)\<close>: the third element
  is bound to \<^verbatim>\<open>apr\<close> and the fourth to \<^verbatim>\<open>aps\<close>, then \<^verbatim>\<open>_addpath(aps, apr)\<close> is called.
\<close>

definition extensive_family ::
  "(string \<times> string) \<times> flag \<times> flag \<times> flag \<times> flag \<Rightarrow> string" where
  "extensive_family item =
     (case item of (as, l, r, apr, aps) \<Rightarrow>
        extensive_kv (family_key as @ '':'') (en l) (en r) (addpath aps apr))"

definition extensive_capability :: "string \<times> flag \<times> flag \<Rightarrow> string" where
  "extensive_capability item =
     (case item of (k, l, p) \<Rightarrow> extensive_kv (k @ '':'') (en l) (en p) [])"

definition extensive_message :: "string \<times> int \<times> int \<Rightarrow> string" where
  "extensive_message item =
     (case item of (k, s, r) \<Rightarrow> extensive_kv (k @ '':'') (str_int s) (str_int r) [])"

text \<open>
  The line of the duration: \<^verbatim>\<open>timedelta(seconds=None)\<close> raises TypeError.
\<close>

definition extensive_duration :: "answer \<Rightarrow> exc + string" where
  "extensive_duration answer =
     (case nonzero (duration answer) of
        Some n \<Rightarrow>
          (case timedelta n of
             Inl e \<Rightarrow> Inl e
           | Inr td \<Rightarrow> Inr (extensive_kv ''up for'' (str_timedelta td) [] []))
      | None \<Rightarrow>
          (case down answer of
             None \<Rightarrow> Inl TypeError
           | Some n \<Rightarrow>
               (case timedelta n of
                  Inl e \<Rightarrow> Inl e
                | Inr td \<Rightarrow> Inr (extensive_kv ''down for'' (str_timedelta td) [] []))))"

definition extensive_template :: "string list \<Rightarrow> string" where
  "extensive_template ls = concat (map (\<lambda>l. l @ [newline]) ls)"

definition extensive :: "answer \<Rightarrow> exc + string" where
  "extensive answer =
     (case extensive_duration answer of
        Inl e \<Rightarrow> Inl e
      | Inr duration_line \<Rightarrow>
          Inr (extensive_template
            [''Neighbor '' @ peer_address answer,
             [],
             ''    Session                         Local'',
             extensive_kv ''local'' (local_address answer) [] [],
             extensive_kv ''state'' (state answer) [] [],
             duration_line,
             [],
             ''    Setup                           Local          Remote'',
             extensive_kv ''AS'' (str_value (local_as answer)) (pr (peer_as answer)) [],
             extensive_kv ''ID'' (str_value (local_id answer)) (pr (peer_id answer)) [],
             extensive_kv ''hold-time'' (str_value (local_hold answer)) (pr (peer_hold answer)) [],
             [],
             ''    Capability                      Local          Remote'',
             join [newline] (map extensive_capability (capabilities answer)),
             [],
             ''    Families                        Local          Remote        Add-Path'',
             join [newline] (map extensive_family (families answer)),
             [],
             ''    Message Statistic                Sent        Received'',
             join [newline] (map extensive_message (messages answer))]))"

subsection \<open>\<^verbatim>\<open>Neighbor.summary\<close>\<close>

definition summary_header :: string where
  "summary_header = ''Peer            AS        up/down state       |     #sent     #recvd''"

text \<open>\<^verbatim>\<open>summary_template = '%-15s %-7s %9s %-12s %10d %10d'\<close>.\<close>

definition summary_template ::
  "string \<Rightarrow> string \<Rightarrow> string \<Rightarrow> string \<Rightarrow> int \<Rightarrow> int \<Rightarrow> string" where
  "summary_template a b c d e f =
     ljust 15 a @ '' '' @ ljust 7 b @ '' '' @ rjust 9 c @ '' '' @ ljust 12 d @ '' '' @
     rjust 10 (str_int e) @ '' '' @ rjust 10 (str_int f)"

text \<open>
  The tuple is built left to right: the \<^verbatim>\<open>timedelta\<close> may raise OverflowError, then
  \<^verbatim>\<open>answer['messages']['update']\<close> raises KeyError when there is no such counter.
\<close>

definition summary :: "answer \<Rightarrow> exc + string" where
  "summary answer =
     (case (case nonzero (duration answer) of
              Some n \<Rightarrow> map_sum id str_timedelta (timedelta n)
            | None \<Rightarrow> Inr ''down'') of
        Inl e \<Rightarrow> Inl e
      | Inr updown \<Rightarrow>
          (case map_of (messages answer) ''update'' of
             None \<Rightarrow> Inl KeyError
           | Some (sent, received) \<Rightarrow>
               Inr (summary_template (peer_address answer) (pr (peer_as answer)) updown
                      (lower (state answer)) sent received)))"

section \<open>The commands (reactor/api/command/neighbor.py)\<close>

text \<open>
  What a handler does to the reactor is the list of its effects, in order: lines and answer
  markers written to a service (\<^verbatim>\<open>reactor.processes\<close>), \<^verbatim>\<open>reactor.teardown_peer\<close>,
  \<^verbatim>\<open>self.log_message\<close> and \<^verbatim>\<open>reactor.asynchronous.schedule\<close>. A generator is given by
  the effects it performs when run to its end, \<open>Yield\<close> marking each \<^verbatim>\<open>yield True\<close>,
  and by the exception that ends it, if one does.
\<close>

datatype ('p, 's) effect =
    Write 's string
  | AnswerDone 's
  | AnswerError 's
  | TeardownPeer 'p int
  | LogMessage ustring
  | Yield
  | Schedule 's string "('p, 's) effect list" "exc option"

type_synonym ('p, 's) generator = "('p, 's) effect list \<times> exc option"

text \<open>
  The reactor, as far as the handlers read it: the peers, the established ones, the
  snapshot, IP and name of each, and the configured neighbors by name (\<open>None\<close> for a
  neighbor object that is false in a condition, else its \<^verbatim>\<open>str\<close>).
\<close>

record 'p reactor =
  peers :: "'p list"
  established_peers :: "'p list"
  neighbor_cli_data :: "'p \<Rightarrow> answer"
  neighbor_ip :: "'p \<Rightarrow> string"
  neighbor_name :: "'p \<Rightarrow> string"
  configuration_neighbors :: "(string \<times> string option) list"

subsection \<open>\<^verbatim>\<open>teardown\<close>\<close>

text \<open>
  \<^verbatim>\<open>extract_neighbors\<close> and \<^verbatim>\<open>match_neighbor\<close> (exabgp.reactor.api.command.limit) are not
  part of the sources at hand; they are parameters. \<open>extract_neighbors line\<close> is the
  exception it raises or the pair of the descriptions, each a list of strings, and the rest
  of the line. Modelled from the spec: \<^verbatim>\<open>match_neighbor\<close> is the predicate "the peer's
  identity matches the description". The interpreter \<open>py\<close> is a parameter as well.
\<close>

type_synonym description = "ustring list"

text \<open>The inner loop \<^verbatim>\<open>for description in descriptions\<close> for one established peer.\<close>

fun teardown_descriptions ::
  "python \<Rightarrow> (description \<Rightarrow> 'p \<Rightarrow> bool) \<Rightarrow> 'p \<Rightarrow> ustring \<Rightarrow> description list \<Rightarrow>
     ('p, 's) generator" where
  "teardown_descriptions py match_neighbor key code [] = ([], None)"
| "teardown_descriptions py match_neighbor key code (description # rest) =
     (if match_neighbor description key
        then (case int_of_digits py code of
                Inl e \<Rightarrow> ([], Some e)
              | Inr n \<Rightarrow>
                  (let r = teardown_descriptions py match_neighbor key code rest
                   in (TeardownPeer key n #
                       LogMessage (ustr ''teardown scheduled for '' @ join (ustr '' '') description) #
                       fst r,
                       snd r)))
      else teardown_descriptions py match_neighbor key code rest)"

text \<open>The outer loop \<^verbatim>\<open>for key in reactor.established_peers()\<close>.\<close>

fun teardown_peers ::
  "python \<Rightarrow> (description \<Rightarrow> 'p \<Rightarrow> bool) \<Rightarrow> ustring \<Rightarrow> description list \<Rightarrow> 'p list \<Rightarrow>
     ('p, 's) generator" where
  "teardown_peers py match_neighbor code descriptions [] = ([], None)"
| "teardown_peers py match_neighbor code descriptions (key # keys) =
     (case teardown_descriptions py match_neighbor key code descriptions of
        (es, Some e) \<Rightarrow> (es, Some e)
      | (es, None) \<Rightarrow>
          (let r = teardown_peers py match_neighbor code descriptions keys
           in (es @ fst r, snd r)))"

text \<open>The two \<^verbatim>\<open>except\<close> clauses; any other exception leaves the handler.\<close>

definition teardown_except ::
  "'s \<Rightarrow> ('p, 's) effect list \<Rightarrow> exc \<Rightarrow> ('p, 's) effect list \<times> (exc + bool)" where
  "teardown_except service es e =
     (if e = ValueError \<or> e = IndexError then (es @ [AnswerError service], Inr False)
      else (es, Inl e))"

text \<open>\<^verbatim>\<open>_, code = line.split(' ', 1)\<close> on a line with a space: what follows the first space.\<close>

definition code_segment :: "ustring \<Rightarrow> ustring" where
  "code_segment line = tl (dropWhile (\<lambda>c. c \<noteq> of_char space) line)"

definition teardown ::
  "python \<Rightarrow> (ustring \<Rightarrow> exc + description list \<times> ustring) \<Rightarrow> (description \<Rightarrow> 'p \<Rightarrow> bool) \<Rightarrow>
     'p reactor \<Rightarrow> 's \<Rightarrow> ustring \<Rightarrow> ('p, 's) effect list \<times> (exc + bool)" where
  "teardown py extract_neighbors match_neighbor reactor service line =
     (case extract_neighbors line of
        Inl e \<Rightarrow> teardown_except service [] e
      | Inr (descriptions, line') \<Rightarrow>
          if of_char space \<notin> set line' then ([AnswerError service], Inr False)
          else if \<not> isdigit py (code_segment line') then ([AnswerError service], Inr False)
          else (case teardown_peers py match_neighbor (code_segment line') descriptions
                       (established_peers reactor) of
                  (es, Some e) \<Rightarrow> teardown_except service es e
                | (es, None) \<Rightarrow> (es @ [AnswerDone service], Inr True)))"

subsection \<open>\<^verbatim>\<open>show neighbor\<close>\<close>

text \<open>Each line is written to the service, then the generator yields.\<close>

definition write_lines :: "'s \<Rightarrow> string list \<Rightarrow> ('p, 's) effect list" where
  "write_lines service ls = concat (map (\<lambda>l. [Write service l, Yield]) ls)"

fun configuration_lines ::
  "'s \<Rightarrow> string \<Rightarrow> (string \<times> string option) list \<Rightarrow> ('p, 's) effect list" where
  "configuration_lines service limit [] = [AnswerDone service]"
| "configuration_lines service limit ((name, neighbor) # rest) =
     (case neighbor of
        None \<Rightarrow> configuration_lines service limit rest
      | Some text \<Rightarrow>
          if limit \<noteq> [] \<and> \<not> contains limit name
            then configuration_lines service limit rest
          else write_lines service (split_on newline text) @ configuration_lines service limit rest)"

definition callback_configuration :: "'p reactor \<Rightarrow> 's \<Rightarrow> string \<Rightarrow> ('p, 's) generator" where
  "callback_configuration reactor service limit =
     (configuration_lines service limit (configuration_neighbors reactor), None)"

text \<open>
  \<^verbatim>\<open>json.dumps\<close> is the library's; it is the parameter \<open>dumps\<close>. The generator has the
  \<^verbatim>\<open>limit\<close> of the command in scope and does not read it.
\<close>

definition callback_json ::
  "(formated list \<Rightarrow> string) \<Rightarrow> 'p reactor \<Rightarrow> 's \<Rightarrow> string \<Rightarrow> ('p, 's) generator" where
  "callback_json dumps reactor service limit =
     (let p = map (\<lambda>peer_name. as_dict (neighbor_cli_data reactor peer_name)) (peers reactor)
      in (write_lines service (split_on newline (dumps p)) @ [AnswerDone service], None))"

fun extensive_blocks :: "'p reactor \<Rightarrow> 's \<Rightarrow> string \<Rightarrow> 'p list \<Rightarrow> ('p, 's) generator" where
  "extensive_blocks reactor service limit [] = ([AnswerDone service], None)"
| "extensive_blocks reactor service limit (peer_name # rest) =
     (if limit \<noteq> [] \<and> \<not> contains limit (neighbor_name reactor peer_name)
        then extensive_blocks reactor service limit rest
      else (case extensive (neighbor_cli_data reactor peer_name) of
              Inl e \<Rightarrow> ([], Some e)
            | Inr text \<Rightarrow>
                (let r = extensive_blocks reactor service limit rest
                 in (write_lines service (split_on newline text) @ fst r, snd r))))"

definition callback_extensive :: "'p reactor \<Rightarrow> 's \<Rightarrow> string \<Rightarrow> ('p, 's) generator" where
  "callback_extensive reactor service limit =
     extensive_blocks reactor service limit (peers reactor)"

fun summary_rows :: "'p reactor \<Rightarrow> 's \<Rightarrow> string \<Rightarrow> 'p list \<Rightarrow> ('p, 's) generator" where
  "summary_rows reactor service limit [] = ([AnswerDone service], None)"
| "summary_rows reactor service limit (peer_name # rest) =
     (if limit \<noteq> [] \<and> limit \<noteq> neighbor_ip reactor peer_name
        then summary_rows reactor service limit rest
      else (case summary (neighbor_cli_data reactor peer_name) of
              Inl e \<Rightarrow> ([], Some e)
            | Inr text \<Rightarrow>
                (let r = summary_rows reactor service limit rest
                 in (write_lines service (split_on newline text) @ fst r, snd r))))"

definition callback_summary :: "'p reactor \<Rightarrow> 's \<Rightarrow> string \<Rightarrow> ('p, 's) generator" where
  "callback_summary reactor service limit =
     (let r = summary_rows reactor service limit (peers reactor)
      in (Write service summary_header # fst r, snd r))"

definition schedule :: "'s \<Rightarrow> string \<Rightarrow> ('p, 's) generator \<Rightarrow> ('p, 's) effect" where
  "schedule service command g = Schedule service command (fst g) (snd g)"

text \<open>The modifiers that the command is registered with.\<close>

definition modifiers :: "string list" where
  "modifiers = [''summary'', ''extensive'', ''configuration'', ''json'']"

text \<open>
  \<^verbatim>\<open>words.remove(x)\<close> removes the first \<open>x\<close> of the list (\<open>remove1\<close>);
  \<^verbatim>\<open>words[-1]\<close> raises IndexError on the empty list. The handler returns \<^verbatim>\<open>True\<close> after
  scheduling and \<^verbatim>\<open>None\<close> after the usage lines.
\<close>

definition show_neighbor ::
  "(formated list \<Rightarrow> string) \<Rightarrow> 'p reactor \<Rightarrow> 's \<Rightarrow> string \<Rightarrow>
     ('p, 's) effect list \<times> (exc + bool option)" where
  "show_neighbor dumps reactor service command =
     (let words = str_split command;
          extensive = (''extensive'' \<in> set words);
          configuration = (''configuration'' \<in> set words);
          summary = (''summary'' \<in> set words);
          jason = (''json'' \<in> set words);
          words = (if summary then remove1 ''summary'' words else words);
          words = (if extensive then remove1 ''extensive'' words else words);
          words = (if configuration then remove1 ''configuration'' words else words);
          words = (if jason then remove1 ''json'' words else words)
      in if words = [] then ([], Inl IndexError)
         else
           (let limit = (if last words \<noteq> ''neighbor'' then last words else [])
            in if jason
                 then ([schedule service command (callback_json dumps reactor service limit)],
                       Inr (Some True))
               else if summary
                 then ([schedule service command (callback_summary reactor service limit)],
                       Inr (Some True))
               else if extensive
                 then ([schedule service command (callback_extensive reactor service limit)],
                       Inr (Some True))
               else if configuration
                 then ([schedule service command (callback_configuration reactor service limit)],
                       Inr (Some True))
               else ([Write service ''please specify summary, extensive or configuration'',
                      Write service
                        ''you can filter by peer ip address adding it after the word neighbor'',
                      AnswerDone service],
                     Inr None)))"

section \<open>Sample inputs\<close>

text \<open>
  A session with 10.0.0.1 that has been up for 3661 seconds, and a second peer whose
  session is down.
\<close>

definition sample_answer :: answer where
  "sample_answer =
     \<lparr>local_address = ''10.0.0.2'', peer_address = ''10.0.0.1'',
      local_as = Some ''65001'', peer_as = Some ''65000'',
      local_id = Some ''10.0.0.2'', peer_id = Some ''10.0.0.1'',
      local_hold = Some ''180'', peer_hold = Some ''180'',
      state = ''ESTABLISHED'', duration = Some 3661, down = None,
      capabilities =
        [(''route-refresh'', Some True, Some True), (''multi-session'', Some True, Some False)],
      families =
        [((''ipv4'', ''unicast''), Some True, Some True, Some True, Some False),
         ((''ipv6'', ''unicast''), Some True, Some False, Some False, Some False)],
      messages = [(''update'', 5, 7)]\<rparr>"

definition sample_down :: answer where
  "sample_down =
     \<lparr>local_address = ''10.0.0.2'', peer_address = ''10.0.0.11'',
      local_as = Some ''65001'', peer_as = None,
      local_id = Some ''10.0.0.2'', peer_id = None,
      local_hold = Some ''180'', peer_hold = None,
      state = ''ACTIVE'', duration = Some 0, down = Some 42,
      capabilities = [], families = [], messages = [(''update'', 0, 0)]\<rparr>"

definition sample_reactor :: "string reactor" where
  "sample_reactor =
     \<lparr>peers = [''neighbor 10.0.0.1 local-ip 10.0.0.2'', ''neighbor 10.0.0.11 local-ip 10.0.0.2''],
      established_peers = [''neighbor 10.0.0.1 local-ip 10.0.0.2''],
      neighbor_cli_data =
        (\<lambda>p. if p = ''neighbor 10.0.0.1 local-ip 10.0.0.2'' then sample_answer else sample_down),
      neighbor_ip =
        (\<lambda>p. if p = ''neighbor 10.0.0.1 local-ip 10.0.0.2'' then ''10.0.0.1'' else ''10.0.0.11''),
      neighbor_name = (\<lambda>p. p),
      configuration_neighbors = []\<rparr>"

text \<open>
  An interpreter with the default limit of 4300 digits and, of the Unicode data, the
  Arabic-Indic digits U+0660 to U+0669 as decimal digits and the superscripts two, three
  and one and the circled digit one (U+00B2, U+00B3, U+00B9, U+2460) as further digits.
\<close>

definition sample_python :: python where
  "sample_python =
     \<lparr>max_str_digits = 4300,
      unicode_decimal = (\<lambda>c. if 0x660 \<le> c \<and> c \<le> 0x669 then Some (c - 0x660) else None),
      unicode_digit = (\<lambda>c. c = 0xB2 \<or> c = 0xB3 \<or> c = 0xB9 \<or> c = 0x2460)\<rparr>"

text \<open>
  An extraction that takes the word after the command as the only description and leaves
  the command with what follows that word, and a matcher that looks for the words of the
  description in the peer's name.
\<close>

definition sample_extract :: "ustring \<Rightarrow> exc + description list \<times> ustring" where
  "sample_extract line =
     (let command = takeWhile (\<lambda>c. c \<noteq> of_char space) line;
          after = dropWhile (\<lambda>c. c \<noteq> of_char space) line
      in if after = [] then Inl IndexError
         else Inr ([[takeWhile (\<lambda>c. c \<noteq> of_char space) (tl after)]],
                   command @ dropWhile (\<lambda>c. c \<noteq> of_char space) (tl after)))"

definition sample_match :: "description \<Rightarrow> string \<Rightarrow> bool" where
  "sample_match description key = list_all (\<lambda>w. w \<in> set (map ustr (str_split key))) description"

section \<open>Properties of the family declarations\<close>

lemma add_safis_accepted:
  "set pre \<subseteq> set (implemented_safi afi_name) \<Longrightarrow> distinct (map (SAFI_value sec) pre) \<Longrightarrow>
   set (map (SAFI_value sec) pre) \<inter> set known = {} \<Longrightarrow>
   add_safis sec afi_name (pre @ names) known =
     add_safis sec afi_name names (known @ map (SAFI_value sec) pre)"
proof (induction pre arbitrary: known)
  case Nil
  then show ?case by simp
next
  case (Cons a pre)
  from Cons.prems have a: "a \<in> set (implemented_safi afi_name)" "SAFI_value sec a \<notin> set known"
    by auto
  from Cons.prems have "set (map (SAFI_value sec) pre) \<inter> set (known @ [SAFI_value sec a]) = {}"
    by auto
  with Cons.prems Cons.IH [of "known @ [SAFI_value sec a]"] a show ?case
    by simp
qed

text \<open>
  C3 (the code does not do what the claim says). The claim: for every AFI of ipv4, ipv6 and
  l2vpn, \<^verbatim>\<open>all\<close> records exactly the implemented SAFIs of that AFI, without duplicates,
  and never raises from an empty declaration. The code: \<^verbatim>\<open>all\<close> always raises. Its first
  call of \<^verbatim>\<open>_add\<close> either fails in the duplicate check of the section or, iterating over
  the characters of \<^verbatim>\<open>'unicast'\<close>, raises "the family pair afi/safi ipv4/u is
  unimplemented"; the declaration then holds an entry for ipv4 with no SAFI added and
  nothing for ipv6 and l2vpn.
\<close>

theorem SectionFamily_all_raises:
  "SectionFamily_all sec c =
     (case check_duplicate sec c of
        Some e \<Rightarrow> (Some e, c)
      | None \<Rightarrow>
          (Some (RaisedFamily ''the family pair afi/safi ipv4/u is unimplemented''),
           c(AFI_value sec ''ipv4'' \<mapsto> setdefault_list c (AFI_value sec ''ipv4''))))"
  by (simp add: SectionFamily_all_def implemented_safi_def SectionFamily_add_def characters_def
      unimplemented_message_def Let_def split: option.split)

text \<open>On the empty declaration, with a duplicate check that passes.\<close>

theorem SectionFamily_all_raises_witness:
  "SectionFamily_all plain_section Map.empty =
     (Some (RaisedFamily ''the family pair afi/safi ipv4/u is unimplemented''), [''ipv4'' \<mapsto> []])"
  using SectionFamily_all_raises [of plain_section Map.empty]
  by (simp add: plain_section_def setdefault_list_def)

text \<open>
  C4, as stated, fails: a call of \<^verbatim>\<open>_add\<close> that raises does not leave the declaration as
  it was. \<^verbatim>\<open>_add(tokeniser,'ipv4',['unicast','bogus'])\<close> on the empty declaration raises
  for \<^verbatim>\<open>bogus\<close> after \<^verbatim>\<open>unicast\<close> has been recorded.
\<close>

theorem SectionFamily_add_partial_counterexample:
  "fst (SectionFamily_add plain_section ''ipv4'' [''unicast'', ''bogus''] Map.empty) =
     Some (RaisedFamily ''the family pair afi/safi ipv4/bogus is unimplemented'') \<and>
   snd (SectionFamily_add plain_section ''ipv4'' [''unicast'', ''bogus''] Map.empty) ''ipv4'' =
     Some [''unicast''] \<and>
   snd (SectionFamily_add plain_section ''ipv4'' [''unicast'', ''bogus''] Map.empty) \<noteq> Map.empty"
  by (simp add: SectionFamily_add_def plain_section_def setdefault_list_def implemented_safi_def
      unimplemented_message_def)

text \<open>
  C4, amended. When the duplicate check of the section passes and the names \<open>pre\<close> of a call
  are accepted (implemented, with SAFIs that are new and pairwise different), the next name
  \<open>n\<close> makes \<^verbatim>\<open>_add\<close> raise the unimplemented-family error if it is outside the implemented
  set of the AFI, and the duplicate-family error if it is implemented and its SAFI is
  already recorded under the AFI, before the call or by it. At the raise the entry of the
  AFI holds the SAFIs it had followed by those of \<open>pre\<close>: the rejected name and the names
  after it are not recorded, the accepted names before it stay. The entries of the other
  AFIs are never touched.
\<close>

theorem SectionFamily_add_failure:
  assumes "check_duplicate sec c = None"
    and "set pre \<subseteq> set (implemented_safi afi_name)"
    and "distinct (map (SAFI_value sec) pre)"
    and "set (map (SAFI_value sec) pre) \<inter> set (setdefault_list c (AFI_value sec afi_name)) = {}"
  shows "(n \<notin> set (implemented_safi afi_name) \<longrightarrow>
            SectionFamily_add sec afi_name (pre @ n # rest) c =
              (Some (RaisedFamily (unimplemented_message afi_name n)),
               c(AFI_value sec afi_name \<mapsto>
                   setdefault_list c (AFI_value sec afi_name) @ map (SAFI_value sec) pre))) \<and>
         (n \<in> set (implemented_safi afi_name) \<and>
          SAFI_value sec n \<in>
            set (setdefault_list c (AFI_value sec afi_name) @ map (SAFI_value sec) pre) \<longrightarrow>
            SectionFamily_add sec afi_name (pre @ n # rest) c =
              (Some (RaisedFamily duplicate_message),
               c(AFI_value sec afi_name \<mapsto>
                   setdefault_list c (AFI_value sec afi_name) @ map (SAFI_value sec) pre))) \<and>
         (\<forall>k. k \<noteq> AFI_value sec afi_name \<longrightarrow>
            snd (SectionFamily_add sec afi_name (pre @ n # rest) c) k = c k)"
  using assms
  by (simp add: SectionFamily_add_def Let_def add_safis_accepted)

text \<open>
  Two failing calls: a SAFI repeated within the call, and a SAFI that ipv6 does not
  implement after one that it does.
\<close>

theorem SectionFamily_add_failure_witness:
  "SectionFamily_add plain_section ''ipv4'' [''unicast'', ''flow'', ''unicast''] Map.empty =
     (Some (RaisedFamily ''afi/safi pair already defined in this family''),
      [''ipv4'' \<mapsto> [''unicast'', ''flow'']]) \<and>
   SectionFamily_add plain_section ''ipv6'' [''unicast'', ''multicast''] [''ipv4'' \<mapsto> [''unicast'']] =
     (Some (RaisedFamily ''the family pair afi/safi ipv6/multicast is unimplemented''),
      [''ipv4'' \<mapsto> [''unicast''], ''ipv6'' \<mapsto> [''unicast'']])"
  using SectionFamily_add_failure [of plain_section Map.empty "[''unicast'', ''flow'']" "''ipv4''" "''unicast''" "[]"]
    SectionFamily_add_failure [of plain_section "[''ipv4'' \<mapsto> [''unicast'']]" "[''unicast'']" "''ipv6''" "''multicast''" "[]"]
  by (simp add: plain_section_def setdefault_list_def implemented_safi_def duplicate_message_def
      unimplemented_message_def)

section \<open>Properties of the snapshot rendering\<close>

lemma keys_dict_set: "fst ` set (dict_set k v d) = insert k (fst ` set d)"
  by (induction k v d rule: dict_set.induct) (simp_all add: insert_commute)

lemma fold_family_fields:
  "out_state (foldl as_dict_family f items) = out_state f"
  "out_duration (foldl as_dict_family f items) = out_duration f"
  "out_capabilities (foldl as_dict_family f items) = out_capabilities f"
  "side_capabilities (out_local (foldl as_dict_family f items)) = side_capabilities (out_local f)"
  "side_capabilities (out_peer (foldl as_dict_family f items)) = side_capabilities (out_peer f)"
  by (induction items arbitrary: f; simp add: as_dict_family_def Let_def split: prod.split)+

lemma fold_family_families:
  "out_families (foldl as_dict_family f items) =
     out_families f @ map (\<lambda>item. family_key (fst item))
       (filter (\<lambda>(k, l, p, aps, apr). truthy l \<and> truthy p) items)"
  by (induction items arbitrary: f) (simp_all add: as_dict_family_def Let_def split: prod.split)

lemma fold_family_keys:
  "fst ` set (side_families (out_local (foldl as_dict_family f items))) =
     fst ` set (side_families (out_local f)) \<union> (\<lambda>item. family_key (fst item)) ` set items"
  "fst ` set (side_families (out_peer (foldl as_dict_family f items))) =
     fst ` set (side_families (out_peer f)) \<union> (\<lambda>item. family_key (fst item)) ` set items"
  by (induction items arbitrary: f;
      simp add: as_dict_family_def Let_def keys_dict_set split: prod.split)+

lemma fold_family_add_path:
  "out_add_path (foldl as_dict_family f items) =
     foldl (\<lambda>d item. case item of (k, l, p, x, y) \<Rightarrow> dict_set (family_key k) (addpath x y) d)
       (out_add_path f) items"
  by (induction items arbitrary: f) (simp_all add: as_dict_family_def Let_def split: prod.split)

lemma fold_other_add_path:
  "out_add_path (foldl as_dict_capability f caps) = out_add_path f"
  "out_add_path (foldl as_dict_message f msgs) = out_add_path f"
  by (induction caps arbitrary: f; simp add: as_dict_capability_def split: prod.split)
     (induction msgs arbitrary: f; simp add: as_dict_message_def split: prod.split)

lemma fold_capability_fields:
  "out_state (foldl as_dict_capability f items) = out_state f"
  "out_duration (foldl as_dict_capability f items) = out_duration f"
  "out_families (foldl as_dict_capability f items) = out_families f"
  "side_families (out_local (foldl as_dict_capability f items)) = side_families (out_local f)"
  "side_families (out_peer (foldl as_dict_capability f items)) = side_families (out_peer f)"
  by (induction items arbitrary: f; simp add: as_dict_capability_def split: prod.split)+

lemma fold_capability_capabilities:
  "out_capabilities (foldl as_dict_capability f items) =
     out_capabilities f @ map fst (filter (\<lambda>(k, l, p). truthy l \<and> truthy p) items)"
  by (induction items arbitrary: f) (simp_all add: as_dict_capability_def split: prod.split)

lemma fold_capability_keys:
  "fst ` set (side_capabilities (out_local (foldl as_dict_capability f items))) =
     fst ` set (side_capabilities (out_local f)) \<union> fst ` set items"
  "fst ` set (side_capabilities (out_peer (foldl as_dict_capability f items))) =
     fst ` set (side_capabilities (out_peer f)) \<union> fst ` set items"
  by (induction items arbitrary: f;
      simp add: as_dict_capability_def keys_dict_set split: prod.split)+

lemma fold_message_fields:
  "out_state (foldl as_dict_message f items) = out_state f"
  "out_duration (foldl as_dict_message f items) = out_duration f"
  "out_families (foldl as_dict_message f items) = out_families f"
  "out_capabilities (foldl as_dict_message f items) = out_capabilities f"
  "out_local (foldl as_dict_message f items) = out_local f"
  "out_peer (foldl as_dict_message f items) = out_peer f"
  by (induction items arbitrary: f; simp add: as_dict_message_def split: prod.split)+

lemmas as_dict_folds = fold_family_fields fold_family_families fold_family_keys
  fold_capability_fields fold_capability_capabilities fold_capability_keys fold_message_fields

lemma addpath_exchanged: "truthy x \<noteq> truthy y \<Longrightarrow> addpath x y \<noteq> addpath y x"
  by (auto simp: addpath_def)

text \<open>
  C5 (the code does not do what the claim says). The claim: for every snapshot and every
  family, the add-path mode that \<^verbatim>\<open>as_dict\<close> puts in the json dictionary equals the add-path
  column that \<^verbatim>\<open>extensive\<close> renders. The code: for a family tuple \<open>(l, p, x, y)\<close>,
  \<^verbatim>\<open>as_dict\<close> stores \<^verbatim>\<open>_addpath(x, y)\<close>, the third element being the send flag, while
  \<^verbatim>\<open>extensive\<close> renders \<^verbatim>\<open>_addpath(y, x)\<close>: the two differ whenever exactly one of the
  two flags is set.
\<close>

theorem addpath_order:
  "out_add_path (as_dict a) =
     foldl (\<lambda>d item. case item of (k, l, p, x, y) \<Rightarrow> dict_set (family_key k) (addpath x y) d)
       [] (families a) \<and>
   extensive_family (k, l, p, x, y) =
     extensive_kv (family_key k @ '':'') (en l) (en p) (addpath y x)"
  by (simp add: as_dict_def Let_def fold_family_add_path fold_other_add_path extensive_family_def)

text \<open>
  A family that sends add-path and does not receive it: \<open>send\<close> in the json
  dictionary, \<open>receive\<close> in the extensive text.
\<close>

theorem addpath_order_witness:
  "out_add_path (as_dict sample_answer) =
     [(''ipv4 unicast'', ''send''), (''ipv6 unicast'', ''disabled'')] \<and>
   extensive_family ((''ipv4'', ''unicast''), Some True, Some True, Some True, Some False) =
     ''   ipv4 unicast:                enabled         enabled         receive''"
proof -
  note t = addpath_order [of sample_answer "(''ipv4'', ''unicast'')" "Some True" "Some True"
      "Some True" "Some False"]
  have "out_add_path (as_dict sample_answer) =
      foldl (\<lambda>d item. case item of (k, l, p, x, y) \<Rightarrow> dict_set (family_key k) (addpath x y) d)
        [] (families sample_answer)"
    using t by (rule conjunct1)
  also have "\<dots> = [(''ipv4 unicast'', ''send''), (''ipv6 unicast'', ''disabled'')]"
    by code_simp
  finally have a: "out_add_path (as_dict sample_answer) =
      [(''ipv4 unicast'', ''send''), (''ipv6 unicast'', ''disabled'')]" .
  have "extensive_family ((''ipv4'', ''unicast''), Some True, Some True, Some True, Some False) =
      extensive_kv (family_key (''ipv4'', ''unicast'') @ '':'') (en (Some True)) (en (Some True))
        (addpath (Some False) (Some True))"
    using t by (rule conjunct2)
  also have "\<dots> = ''   ipv4 unicast:                enabled         enabled         receive''"
    by code_simp
  finally show ?thesis
    using a by (rule conjI [rotated])
qed

lemma fold_family_add_path_keys:
  "fst ` set (out_add_path (foldl as_dict_family f items)) =
     fst ` set (out_add_path f) \<union> (\<lambda>item. family_key (fst item)) ` set items"
  "fst ` set (side_add_path (out_local (foldl as_dict_family f items))) =
     fst ` set (side_add_path (out_local f)) \<union> (\<lambda>item. family_key (fst item)) ` set items"
  "fst ` set (side_add_path (out_peer (foldl as_dict_family f items))) =
     fst ` set (side_add_path (out_peer f)) \<union> (\<lambda>item. family_key (fst item)) ` set items"
  by (induction items arbitrary: f;
      simp add: as_dict_family_def Let_def keys_dict_set split: prod.split)+

lemma fold_capability_add_path:
  "side_add_path (out_local (foldl as_dict_capability f items)) = side_add_path (out_local f)"
  "side_add_path (out_peer (foldl as_dict_capability f items)) = side_add_path (out_peer f)"
  by (induction items arbitrary: f; simp add: as_dict_capability_def split: prod.split)+

text \<open>
  C8, as stated, fails: a family that is not enabled on both sides does not appear only in
  the local and peer maps. The sample's \<open>ipv6 unicast\<close>, which the peer does not
  announce, is not in the top-level \<^verbatim>\<open>families\<close> list and is a key of the top-level
  \<^verbatim>\<open>add-path\<close> map.
\<close>

theorem as_dict_add_path_counterexample:
  "''ipv6 unicast'' \<notin> set (out_families (as_dict sample_answer)) \<and>
   map_of (out_add_path (as_dict sample_answer)) ''ipv6 unicast'' = Some ''disabled''"
  by code_simp

text \<open>
  C8, amended. For every snapshot, the top-level \<^verbatim>\<open>families\<close> list of \<^verbatim>\<open>as_dict\<close> holds
  exactly the keys \<^verbatim>\<open>"AFI SAFI"\<close> of the families whose local and peer flags are both
  \<^verbatim>\<open>True\<close>, in order, and the top-level \<^verbatim>\<open>capabilities\<close> list exactly the names of the
  capabilities whose two flags are both \<^verbatim>\<open>True\<close>. Every family, enabled or not, is a key
  of the local and peer \<^verbatim>\<open>families\<close> and \<^verbatim>\<open>add-path\<close> maps and of the top-level
  \<^verbatim>\<open>add-path\<close> map; every capability, enabled or not, is a key of the local and peer
  \<^verbatim>\<open>capabilities\<close> maps.
\<close>

theorem as_dict_common_lists:
  "out_families (as_dict a) =
     map (\<lambda>item. family_key (fst item))
       (filter (\<lambda>(k, l, p, aps, apr). l = Some True \<and> p = Some True) (families a)) \<and>
   out_capabilities (as_dict a) =
     map fst (filter (\<lambda>(k, l, p). l = Some True \<and> p = Some True) (capabilities a)) \<and>
   fst ` set (side_families (out_local (as_dict a))) = (\<lambda>item. family_key (fst item)) ` set (families a) \<and>
   fst ` set (side_families (out_peer (as_dict a))) = (\<lambda>item. family_key (fst item)) ` set (families a) \<and>
   fst ` set (side_capabilities (out_local (as_dict a))) = fst ` set (capabilities a) \<and>
   fst ` set (side_capabilities (out_peer (as_dict a))) = fst ` set (capabilities a) \<and>
   fst ` set (out_add_path (as_dict a)) = (\<lambda>item. family_key (fst item)) ` set (families a) \<and>
   fst ` set (side_add_path (out_local (as_dict a))) = (\<lambda>item. family_key (fst item)) ` set (families a) \<and>
   fst ` set (side_add_path (out_peer (as_dict a))) = (\<lambda>item. family_key (fst item)) ` set (families a)"
  by (simp add: as_dict_def Let_def as_dict_folds fold_family_add_path_keys fold_capability_add_path
      fold_other_add_path empty_side_def truthy_def)

text \<open>
  Of the two families and two capabilities of the sample, one each is enabled on both
  sides; both families are in the top-level \<^verbatim>\<open>add-path\<close> map.
\<close>

theorem as_dict_common_lists_witness:
  "out_families (as_dict sample_answer) = [''ipv4 unicast''] \<and>
   out_capabilities (as_dict sample_answer) = [''route-refresh''] \<and>
   fst ` set (out_add_path (as_dict sample_answer)) = {''ipv4 unicast'', ''ipv6 unicast''}"
proof -
  note t = as_dict_common_lists [of sample_answer]
  have "out_families (as_dict sample_answer) =
      map (\<lambda>item. family_key (fst item))
        (filter (\<lambda>(k, l, p, aps, apr). l = Some True \<and> p = Some True) (families sample_answer))"
    using t by (rule conjunct1)
  also have "\<dots> = [''ipv4 unicast'']"
    by code_simp
  finally have a: "out_families (as_dict sample_answer) = [''ipv4 unicast'']" .
  have "out_capabilities (as_dict sample_answer) =
      map fst (filter (\<lambda>(k, l, p). l = Some True \<and> p = Some True) (capabilities sample_answer))"
    using t by (rule conjunct1 [OF conjunct2])
  also have "\<dots> = [''route-refresh'']"
    by code_simp
  finally have b: "out_capabilities (as_dict sample_answer) = [''route-refresh'']" .
  have "fst ` set (out_add_path (as_dict sample_answer)) =
      (\<lambda>item. family_key (fst item)) ` set (families sample_answer)"
    using t by (rule conjunct1 [OF conjunct2 [OF conjunct2 [OF conjunct2 [OF conjunct2
      [OF conjunct2 [OF conjunct2]]]]]])
  also have "\<dots> = {''ipv4 unicast'', ''ipv6 unicast''}"
    by (simp add: sample_answer_def family_key_def)
  finally have c: "fst ` set (out_add_path (as_dict sample_answer)) =
      {''ipv4 unicast'', ''ipv6 unicast''}" .
  show ?thesis
    by (rule conjI [OF a conjI [OF b c]])
qed

lemma length_ljust: "length (ljust w s) = max w (length s)" and take_ljust: "take (length s) (ljust w s) = s"
  by (simp_all add: ljust_def)

lemma length_rjust: "length (rjust w s) = max w (length s)" and drop_rjust: "drop (w - length s) (rjust w s) = s"
  by (simp_all add: rjust_def)

lemma str_timedelta_3661: "map_sum id str_timedelta (timedelta 3661) = Inr ''1:01:01''"
  by (simp add: timedelta_def str_timedelta_def Let_def str_int_def zero_pad_def str_nat.simps
      digit_char_def)

text \<open>
  C9 (confirmed). For a snapshot of a peer up for 3661 seconds, \<^verbatim>\<open>summary\<close> returns the
  row made of the peer address left-justified in 15 columns, the AS left-justified in 7,
  \<open>1:01:01\<close> right-justified in 9, the FSM state in lower case left-justified in 12, and
  the sent and received counts of update messages right-justified in 10 columns each,
  separated by single spaces.
\<close>

theorem summary_up_3661:
  assumes "duration a = Some 3661" and "map_of (messages a) ''update'' = Some (sent, received)"
  shows "summary a =
     Inr (ljust 15 (peer_address a) @ '' '' @ ljust 7 (pr (peer_as a)) @ '' '' @
          rjust 9 ''1:01:01'' @ '' '' @ ljust 12 (lower (state a)) @ '' '' @
          rjust 10 (str_int sent) @ '' '' @ rjust 10 (str_int received))"
  using assms
  by (simp add: summary_def nonzero_def str_timedelta_3661 summary_template_def)

text \<open>
  The row of the sample session.
\<close>

theorem summary_up_3661_witness:
  "duration sample_answer = Some 3661 \<and>
   map_of (messages sample_answer) ''update'' = Some (5, 7) \<and>
   summary sample_answer =
     Inr ''10.0.0.1        65000     1:01:01 established           5          7''"
proof -
  have h1: "duration sample_answer = Some 3661"
    by (simp add: sample_answer_def)
  have h2: "map_of (messages sample_answer) ''update'' = Some (5, 7)"
    by (simp add: sample_answer_def)
  have "summary sample_answer =
      Inr (ljust 15 (peer_address sample_answer) @ '' '' @ ljust 7 (pr (peer_as sample_answer)) @
           '' '' @ rjust 9 ''1:01:01'' @ '' '' @ ljust 12 (lower (state sample_answer)) @ '' '' @
           rjust 10 (str_int 5) @ '' '' @ rjust 10 (str_int 7))"
    by (rule summary_up_3661 [OF h1 h2])
  also have "\<dots> = Inr ''10.0.0.1        65000     1:01:01 established           5          7''"
    by code_simp
  finally have "summary sample_answer =
      Inr ''10.0.0.1        65000     1:01:01 established           5          7''" .
  with h1 h2 show ?thesis
    by (intro conjI)
qed

text \<open>
  C10 (confirmed). A snapshot whose duration is 0 and whose \<^verbatim>\<open>down\<close> is \<^verbatim>\<open>None\<close>:
  \<^verbatim>\<open>as_dict\<close> reports the state \<open>down\<close> and the duration \<^verbatim>\<open>None\<close> (the value of
  \<^verbatim>\<open>down\<close>), and \<^verbatim>\<open>summary\<close> renders the literal \<open>down\<close> in the up/down column
  (or raises KeyError when the snapshot has no \<open>update\<close> counter): the test is the truth of
  the duration, not whether it is \<^verbatim>\<open>None\<close>.
\<close>

theorem as_dict_down_at_zero:
  assumes "duration a = Some 0" and "down a = None"
  shows "out_state (as_dict a) = ''down'' \<and> out_duration (as_dict a) = None \<and>
     summary a =
       (case map_of (messages a) ''update'' of
          None \<Rightarrow> Inl KeyError
        | Some (sent, received) \<Rightarrow>
            Inr (ljust 15 (peer_address a) @ '' '' @ ljust 7 (pr (peer_as a)) @ '' '' @
                 rjust 9 ''down'' @ '' '' @ ljust 12 (lower (state a)) @ '' '' @
                 rjust 10 (str_int sent) @ '' '' @ rjust 10 (str_int received)))"
  using assms
  by (simp add: as_dict_def Let_def as_dict_folds nonzero_def summary_def summary_template_def
      split: option.split)

text \<open>
  The sample session with its duration set to 0.
\<close>

theorem as_dict_down_at_zero_witness:
  "duration (sample_answer\<lparr>duration := Some 0\<rparr>) = Some 0 \<and>
   down (sample_answer\<lparr>duration := Some 0\<rparr>) = None \<and>
   out_state (as_dict (sample_answer\<lparr>duration := Some 0\<rparr>)) = ''down'' \<and>
   out_duration (as_dict (sample_answer\<lparr>duration := Some 0\<rparr>)) = None \<and>
   summary (sample_answer\<lparr>duration := Some 0\<rparr>) =
     Inr ''10.0.0.1        65000        down established           5          7''"
proof -
  let ?a = "sample_answer\<lparr>duration := Some 0\<rparr>"
  have h1: "duration ?a = Some 0"
    by simp
  have h2: "down ?a = None"
    by (simp add: sample_answer_def)
  note t = as_dict_down_at_zero [OF h1 h2]
  have "summary ?a =
      (case map_of (messages ?a) ''update'' of
         None \<Rightarrow> Inl KeyError
       | Some (sent, received) \<Rightarrow>
           Inr (ljust 15 (peer_address ?a) @ '' '' @ ljust 7 (pr (peer_as ?a)) @ '' '' @
                rjust 9 ''down'' @ '' '' @ ljust 12 (lower (state ?a)) @ '' '' @
                rjust 10 (str_int sent) @ '' '' @ rjust 10 (str_int received)))"
    using t by (rule conjunct2 [OF conjunct2])
  also have "\<dots> = Inr ''10.0.0.1        65000        down established           5          7''"
    by code_simp
  finally have s: "summary ?a =
      Inr ''10.0.0.1        65000        down established           5          7''" .
  from t have "out_state (as_dict ?a) = ''down''" "out_duration (as_dict ?a) = None"
    by (rule conjunct1, rule conjunct1 [OF conjunct2])
  with h1 h2 s show ?thesis
    by (intro conjI)
qed

section \<open>Properties of \<^verbatim>\<open>teardown\<close>\<close>

lemma digit_value_decimal: "decimal_char c \<Longrightarrow> digit_value py c = Some (c - 48)"
  by (simp add: digit_value_def)

lemma foldl_decimal:
  "list_all decimal_char s \<Longrightarrow>
   foldl (\<lambda>n c. 10 * n + (case digit_value py c of None \<Rightarrow> 0 | Some d \<Rightarrow> int d)) a s =
   foldl (\<lambda>n c. 10 * n + int (c - 48)) a s"
  by (induction s arbitrary: a) (simp_all add: digit_value_decimal)

lemma int_of_digits_decimal:
  assumes "all_decimal s" and "max_str_digits py = 0 \<or> length s \<le> max_str_digits py"
  shows "int_of_digits py s = Inr (decimal_value s)"
proof -
  from assms(1) have d: "s \<noteq> []" "list_all decimal_char s"
    by (simp_all add: all_decimal_def)
  then have "list_all (\<lambda>c. digit_value py c \<noteq> None) s"
    by (simp add: list_all_iff digit_value_decimal)
  with d assms(2) show ?thesis
    by (auto simp: int_of_digits_def decimal_value_def foldl_decimal)
qed

lemma int_of_digits_long:
  "max_str_digits py \<noteq> 0 \<Longrightarrow> max_str_digits py < length s \<Longrightarrow> int_of_digits py s = Inl ValueError"
  by (simp add: int_of_digits_def)

lemma all_decimal_isdigit: "all_decimal code \<Longrightarrow> isdigit py code"
  by (auto simp: all_decimal_def isdigit_def isdigit_char_def list_all_iff digit_value_decimal)

lemma isdigit_decimal:
  "isdigit py code \<Longrightarrow> \<forall>c\<in>set code. isdigit_char py c \<longrightarrow> decimal_char c \<Longrightarrow> all_decimal code"
  by (auto simp: all_decimal_def isdigit_def list_all_iff)

lemma teardown_descriptions_decimal:
  "int_of_digits py code = Inr n \<Longrightarrow>
   teardown_descriptions py match_neighbor key code descriptions =
     (concat (map (\<lambda>description.
         [TeardownPeer key n,
          LogMessage (ustr ''teardown scheduled for '' @ join (ustr '' '') description)])
        (filter (\<lambda>description. match_neighbor description key) descriptions)), None)"
  by (induction descriptions) (simp_all add: Let_def)

lemma teardown_peers_decimal:
  "int_of_digits py code = Inr n \<Longrightarrow>
   teardown_peers py match_neighbor code descriptions keys =
     (concat (map (\<lambda>(key, description).
         [TeardownPeer key n,
          LogMessage (ustr ''teardown scheduled for '' @ join (ustr '' '') description)])
        (filter (\<lambda>(key, description). match_neighbor description key)
           (List.product keys descriptions))), None)"
  by (induction keys)
     (simp_all add: teardown_descriptions_decimal Let_def filter_map comp_def map_concat)

lemma teardown_descriptions_raise:
  "int_of_digits py code = Inl e \<Longrightarrow>
   teardown_descriptions py match_neighbor key code descriptions =
     ([], if \<exists>description\<in>set descriptions. match_neighbor description key then Some e else None)"
  by (induction descriptions) simp_all

lemma teardown_peers_raise:
  "int_of_digits py code = Inl e \<Longrightarrow>
   teardown_peers py match_neighbor code descriptions keys =
     ([], if \<exists>key\<in>set keys. \<exists>description\<in>set descriptions. match_neighbor description key
          then Some e else None)"
  by (induction keys) (simp_all add: teardown_descriptions_raise)

lemma teardown_decimal:
  assumes "extract_neighbors line = Inr (descriptions, rest)"
    and "of_char space \<in> set rest"
    and "all_decimal (code_segment rest)"
    and "max_str_digits py = 0 \<or> length (code_segment rest) \<le> max_str_digits py"
  shows "teardown py extract_neighbors match_neighbor reactor service line =
     (concat (map (\<lambda>(key, description).
         [TeardownPeer key (decimal_value (code_segment rest)),
          LogMessage (ustr ''teardown scheduled for '' @ join (ustr '' '') description)])
        (filter (\<lambda>(key, description). match_neighbor description key)
           (List.product (established_peers reactor) descriptions))) @ [AnswerDone service],
      Inr True)"
  using assms(1,2) all_decimal_isdigit [OF assms(3), of py]
  by (simp add: teardown_def teardown_peers_decimal [OF int_of_digits_decimal [OF assms(3,4)]])

lemma all_decimal_replicate: "0 < n \<Longrightarrow> decimal_char c \<Longrightarrow> all_decimal (replicate n c)"
  by (auto simp: all_decimal_def list_all_iff)

lemma teardown_long_code:
  "sample_extract (ustr ''teardown 10.0.0.1 '' @ replicate 4301 (of_char CHR ''1'')) =
     Inr ([[ustr ''10.0.0.1'']], ustr ''teardown '' @ replicate 4301 (of_char CHR ''1'')) \<and>
   code_segment (ustr ''teardown '' @ replicate 4301 (of_char CHR ''1'')) =
     replicate 4301 (of_char CHR ''1'') \<and>
   all_decimal (replicate 4301 (of_char CHR ''1'')) \<and>
   sample_match [ustr ''10.0.0.1''] ''neighbor 10.0.0.1 local-ip 10.0.0.2'' \<and>
   teardown sample_python sample_extract sample_match sample_reactor ''cli''
       (ustr ''teardown 10.0.0.1 '' @ replicate 4301 (of_char CHR ''1'')) =
     ([AnswerError ''cli''], Inr False)"
proof -
  define code :: ustring where "code = replicate 4301 (of_char CHR ''1'')"
  have h1: "sample_extract (ustr ''teardown 10.0.0.1 '' @ code) =
      Inr ([[ustr ''10.0.0.1'']], ustr ''teardown '' @ code)"
    by (simp add: sample_extract_def ustr_def space_def)
  have h2: "code_segment (ustr ''teardown '' @ code) = code"
    by (simp add: code_segment_def ustr_def space_def)
  have h3: "all_decimal code"
    unfolding code_def by (rule all_decimal_replicate) (simp_all add: decimal_char_def)
  have h4: "sample_match [ustr ''10.0.0.1''] ''neighbor 10.0.0.1 local-ip 10.0.0.2''"
    by code_simp
  have h5: "int_of_digits sample_python code = Inl ValueError"
    by (rule int_of_digits_long) (simp_all add: sample_python_def code_def)
  have h6: "of_char space \<in> set (ustr ''teardown '' @ code)"
    by (simp add: ustr_def space_def)
  have h7: "established_peers sample_reactor = [''neighbor 10.0.0.1 local-ip 10.0.0.2'']"
    by (simp add: sample_reactor_def)
  have "teardown sample_python sample_extract sample_match sample_reactor ''cli''
       (ustr ''teardown 10.0.0.1 '' @ code) = ([AnswerError ''cli''], Inr False)"
    using h4 h6 all_decimal_isdigit [OF h3, of sample_python]
    by (simp add: teardown_def h1 h2 h5 h7 teardown_except_def)
  with h1 h2 h3 h4 show ?thesis
    unfolding code_def by (intro conjI)
qed

text \<open>
  C1, as stated, fails: with the default limit of 4300 digits, \<^verbatim>\<open>int(code)\<close> raises
  ValueError on a code of 4301 decimal digits. The description resolves and an established
  peer matches it, the exception is caught, and the handler writes answer-error and calls
  \<^verbatim>\<open>teardown_peer\<close> not once.
\<close>

theorem teardown_long_code_counterexample:
  "sample_extract (ustr ''teardown 10.0.0.1 '' @ replicate 4301 (of_char CHR ''1'')) =
     Inr ([[ustr ''10.0.0.1'']], ustr ''teardown '' @ replicate 4301 (of_char CHR ''1'')) \<and>
   code_segment (ustr ''teardown '' @ replicate 4301 (of_char CHR ''1'')) =
     replicate 4301 (of_char CHR ''1'') \<and>
   all_decimal (replicate 4301 (of_char CHR ''1'')) \<and>
   sample_match [ustr ''10.0.0.1''] ''neighbor 10.0.0.1 local-ip 10.0.0.2'' \<and>
   teardown sample_python sample_extract sample_match sample_reactor ''cli''
       (ustr ''teardown 10.0.0.1 '' @ replicate 4301 (of_char CHR ''1'')) =
     ([AnswerError ''cli''], Inr False)"
  by (rule teardown_long_code)

text \<open>
  C1, amended. When the neighbor description resolves and the rest of the line has a
  space followed by a code of decimal digits only (at least one, and no more than the
  interpreter's limit on the digits that \<^verbatim>\<open>int\<close> converts, 4300 by default, if there is
  a limit), \<^verbatim>\<open>teardown\<close> calls \<^verbatim>\<open>teardown_peer\<close> with the value of the code once for
  each pair of an established peer and a description that matches it, in the order of the
  two loops, each call followed by its log line; it then writes answer-done and returns
  \<^verbatim>\<open>True\<close>, also when nothing matched.
\<close>

theorem teardown_done:
  assumes "extract_neighbors line = Inr (descriptions, rest)"
    and "of_char space \<in> set rest"
    and "all_decimal (code_segment rest)"
    and "max_str_digits py = 0 \<or> length (code_segment rest) \<le> max_str_digits py"
  shows "teardown py extract_neighbors match_neighbor reactor service line =
     (concat (map (\<lambda>(key, description).
         [TeardownPeer key (decimal_value (code_segment rest)),
          LogMessage (ustr ''teardown scheduled for '' @ join (ustr '' '') description)])
        (filter (\<lambda>(key, description). match_neighbor description key)
           (List.product (established_peers reactor) descriptions))) @ [AnswerDone service],
      Inr True)"
  using assms by (rule teardown_decimal)

text \<open>
  \<^verbatim>\<open>teardown 10.0.0.1 6\<close> with one established peer that matches: one call with code 6,
  one log line, answer-done.
\<close>

theorem teardown_done_witness:
  "sample_extract (ustr ''teardown 10.0.0.1 6'') = Inr ([[ustr ''10.0.0.1'']], ustr ''teardown 6'') \<and>
   of_char space \<in> set (ustr ''teardown 6'') \<and> all_decimal (code_segment (ustr ''teardown 6'')) \<and>
   length (code_segment (ustr ''teardown 6'')) \<le> max_str_digits sample_python \<and>
   teardown sample_python sample_extract sample_match sample_reactor ''cli''
       (ustr ''teardown 10.0.0.1 6'') =
     ([TeardownPeer ''neighbor 10.0.0.1 local-ip 10.0.0.2'' 6,
       LogMessage (ustr ''teardown scheduled for 10.0.0.1''), AnswerDone ''cli''], Inr True)"
proof -
  have h1: "sample_extract (ustr ''teardown 10.0.0.1 6'') =
      Inr ([[ustr ''10.0.0.1'']], ustr ''teardown 6'')"
    by code_simp
  have h2: "of_char space \<in> set (ustr ''teardown 6'')"
    by code_simp
  have h3: "all_decimal (code_segment (ustr ''teardown 6''))"
    by code_simp
  have h4: "length (code_segment (ustr ''teardown 6'')) \<le> max_str_digits sample_python"
    by code_simp
  then have h4': "max_str_digits sample_python = 0 \<or>
      length (code_segment (ustr ''teardown 6'')) \<le> max_str_digits sample_python"
    by (rule disjI2)
  have "teardown sample_python sample_extract sample_match sample_reactor ''cli''
      (ustr ''teardown 10.0.0.1 6'') =
     (concat (map (\<lambda>(key, description).
         [TeardownPeer key (decimal_value (code_segment (ustr ''teardown 6''))),
          LogMessage (ustr ''teardown scheduled for '' @ join (ustr '' '') description)])
        (filter (\<lambda>(key, description). sample_match description key)
           (List.product (established_peers sample_reactor) [[ustr ''10.0.0.1'']]))) @
        [AnswerDone ''cli''],
      Inr True)"
    by (rule teardown_done [where extract_neighbors = sample_extract, OF h1 h2 h3 h4'])
  also have "\<dots> =
     ([TeardownPeer ''neighbor 10.0.0.1 local-ip 10.0.0.2'' 6,
       LogMessage (ustr ''teardown scheduled for 10.0.0.1''), AnswerDone ''cli''], Inr True)"
    by code_simp
  finally have "teardown sample_python sample_extract sample_match sample_reactor ''cli''
      (ustr ''teardown 10.0.0.1 6'') =
     ([TeardownPeer ''neighbor 10.0.0.1 local-ip 10.0.0.2'' 6,
       LogMessage (ustr ''teardown scheduled for 10.0.0.1''), AnswerDone ''cli''], Inr True)" .
  with h1 h2 h3 h4 show ?thesis
    by (intro conjI)
qed

text \<open>
  C2, as stated, fails, in both directions. \<^verbatim>\<open>str.isdigit\<close> accepts digits that are
  not among 0 to 9: with a code of the superscript two (U+00B2) and no established peer
  that matches, the handler never reaches \<^verbatim>\<open>int(code)\<close> and writes answer-done; with a
  code of the Arabic-Indic digit three (U+0663) and a peer that matches, it tears the
  session down with code 3 and writes answer-done. And a code of 4301 decimal digits, with
  a peer that matches, is answered with answer-error and no teardown although it is all
  decimal digits.
\<close>

theorem teardown_digits_counterexample:
  "(isdigit sample_python [0xB2] \<and> \<not> all_decimal [0xB2] \<and>
    sample_extract (ustr ''teardown 10.0.0.9 '' @ [0xB2]) =
      Inr ([[ustr ''10.0.0.9'']], ustr ''teardown '' @ [0xB2]) \<and>
    teardown sample_python sample_extract sample_match sample_reactor ''cli''
        (ustr ''teardown 10.0.0.9 '' @ [0xB2]) =
      ([AnswerDone ''cli''], Inr True)) \<and>
   (isdigit sample_python [0x663] \<and> \<not> all_decimal [0x663] \<and>
    sample_extract (ustr ''teardown 10.0.0.1 '' @ [0x663]) =
      Inr ([[ustr ''10.0.0.1'']], ustr ''teardown '' @ [0x663]) \<and>
    teardown sample_python sample_extract sample_match sample_reactor ''cli''
        (ustr ''teardown 10.0.0.1 '' @ [0x663]) =
      ([TeardownPeer ''neighbor 10.0.0.1 local-ip 10.0.0.2'' 3,
        LogMessage (ustr ''teardown scheduled for 10.0.0.1''), AnswerDone ''cli''], Inr True)) \<and>
   (sample_extract (ustr ''teardown 10.0.0.1 '' @ replicate 4301 (of_char CHR ''1'')) =
      Inr ([[ustr ''10.0.0.1'']], ustr ''teardown '' @ replicate 4301 (of_char CHR ''1'')) \<and>
    of_char space \<in> set (ustr ''teardown '' @ replicate 4301 (of_char CHR ''1'')) \<and>
    all_decimal (code_segment (ustr ''teardown '' @ replicate 4301 (of_char CHR ''1''))) \<and>
    teardown sample_python sample_extract sample_match sample_reactor ''cli''
        (ustr ''teardown 10.0.0.1 '' @ replicate 4301 (of_char CHR ''1'')) =
      ([AnswerError ''cli''], Inr False))"
proof -
  have a: "isdigit sample_python [0xB2] \<and> \<not> all_decimal [0xB2] \<and>
    sample_extract (ustr ''teardown 10.0.0.9 '' @ [0xB2]) =
      Inr ([[ustr ''10.0.0.9'']], ustr ''teardown '' @ [0xB2]) \<and>
    teardown sample_python sample_extract sample_match sample_reactor ''cli''
        (ustr ''teardown 10.0.0.9 '' @ [0xB2]) =
      ([AnswerDone ''cli''], Inr True)"
    by code_simp
  have b: "isdigit sample_python [0x663] \<and> \<not> all_decimal [0x663] \<and>
    sample_extract (ustr ''teardown 10.0.0.1 '' @ [0x663]) =
      Inr ([[ustr ''10.0.0.1'']], ustr ''teardown '' @ [0x663]) \<and>
    teardown sample_python sample_extract sample_match sample_reactor ''cli''
        (ustr ''teardown 10.0.0.1 '' @ [0x663]) =
      ([TeardownPeer ''neighbor 10.0.0.1 local-ip 10.0.0.2'' 3,
        LogMessage (ustr ''teardown scheduled for 10.0.0.1''), AnswerDone ''cli''], Inr True)"
    by code_simp
  note l = teardown_long_code
  have c2: "of_char space \<in> set (ustr ''teardown '' @ replicate 4301 (of_char CHR ''1''))"
    by (simp add: ustr_def space_def)
  have c3: "all_decimal (code_segment (ustr ''teardown '' @ replicate 4301 (of_char CHR ''1'')))"
    using l by (simp only:)
  from l have c1: "sample_extract (ustr ''teardown 10.0.0.1 '' @ replicate 4301 (of_char CHR ''1'')) =
      Inr ([[ustr ''10.0.0.1'']], ustr ''teardown '' @ replicate 4301 (of_char CHR ''1''))"
    and c4: "teardown sample_python sample_extract sample_match sample_reactor ''cli''
        (ustr ''teardown 10.0.0.1 '' @ replicate 4301 (of_char CHR ''1'')) =
      ([AnswerError ''cli''], Inr False)"
    by (rule conjunct1, rule conjunct2 [OF conjunct2 [OF conjunct2 [OF conjunct2]]])
  from c1 c2 c3 c4 have c: "sample_extract (ustr ''teardown 10.0.0.1 '' @ replicate 4301 (of_char CHR ''1'')) =
      Inr ([[ustr ''10.0.0.1'']], ustr ''teardown '' @ replicate 4301 (of_char CHR ''1'')) \<and>
    of_char space \<in> set (ustr ''teardown '' @ replicate 4301 (of_char CHR ''1'')) \<and>
    all_decimal (code_segment (ustr ''teardown '' @ replicate 4301 (of_char CHR ''1''))) \<and>
    teardown sample_python sample_extract sample_match sample_reactor ''cli''
        (ustr ''teardown 10.0.0.1 '' @ replicate 4301 (of_char CHR ''1'')) =
      ([AnswerError ''cli''], Inr False)"
    by (intro conjI)
  show ?thesis
    by (rule conjI [OF a conjI [OF b c]])
qed

text \<open>
  C2, amended. For a line whose code segment has no digit other than 0 to 9 (every
  character that \<^verbatim>\<open>isdigit\<close> accepts is one of 0 to 9) and is no longer than the
  interpreter's limit on the digits that \<^verbatim>\<open>int\<close> converts (4300 by default, if there is
  a limit), \<^verbatim>\<open>teardown\<close> writes answer-error and calls \<^verbatim>\<open>teardown_peer\<close> not once if
  and only if \<^verbatim>\<open>extract_neighbors\<close> raises ValueError or IndexError, or the rest of the
  line has no space, or the code after the first space is not a non-empty string of
  decimal digits; in each of these cases the handler writes nothing but answer-error and
  returns \<^verbatim>\<open>False\<close> without raising.
\<close>

theorem teardown_error_iff:
  assumes "\<And>descriptions rest c. extract_neighbors line = Inr (descriptions, rest) \<Longrightarrow>
             c \<in> set (code_segment rest) \<Longrightarrow> isdigit_char py c \<Longrightarrow> decimal_char c"
    and "\<And>descriptions rest. extract_neighbors line = Inr (descriptions, rest) \<Longrightarrow>
             max_str_digits py = 0 \<or> length (code_segment rest) \<le> max_str_digits py"
  shows "((AnswerError service \<in>
             set (fst (teardown py extract_neighbors match_neighbor reactor service line)) \<and>
          (\<forall>key n. TeardownPeer key n \<notin>
             set (fst (teardown py extract_neighbors match_neighbor reactor service line)))) =
         (extract_neighbors line = Inl ValueError \<or> extract_neighbors line = Inl IndexError \<or>
          (\<exists>descriptions rest. extract_neighbors line = Inr (descriptions, rest) \<and>
             (of_char space \<notin> set rest \<or> \<not> all_decimal (code_segment rest))))) \<and>
         (extract_neighbors line = Inl ValueError \<or> extract_neighbors line = Inl IndexError \<or>
          (\<exists>descriptions rest. extract_neighbors line = Inr (descriptions, rest) \<and>
             (of_char space \<notin> set rest \<or> \<not> all_decimal (code_segment rest))) \<longrightarrow>
          teardown py extract_neighbors match_neighbor reactor service line =
            ([AnswerError service], Inr False))"
proof (cases "extract_neighbors line")
  case (Inl e)
  then show ?thesis
    by (auto simp: teardown_def teardown_except_def)
next
  case (Inr r)
  obtain descriptions rest where r: "r = (descriptions, rest)"
    by (cases r)
  show ?thesis
  proof (cases "of_char space \<in> set rest \<and> isdigit py (code_segment rest)")
    case True
    with assms(1) [of descriptions rest] Inr r have d: "all_decimal (code_segment rest)"
      by (auto intro: isdigit_decimal)
    from True have s: "of_char space \<in> set rest"
      by simp
    from assms(2) [of descriptions rest] Inr r
    have m: "max_str_digits py = 0 \<or> length (code_segment rest) \<le> max_str_digits py"
      by simp
    show ?thesis
      using d s
      by (auto simp: teardown_decimal [where extract_neighbors = extract_neighbors and line = line,
            OF Inr [unfolded r] s d m] Inr r)
  next
    case False
    then have "of_char space \<notin> set rest \<or> \<not> all_decimal (code_segment rest)"
      using all_decimal_isdigit by blast
    with False show ?thesis
      by (auto simp: teardown_def Inr r)
  qed
qed

text \<open>
  \<^verbatim>\<open>teardown * abc\<close>: answer-error, no teardown.
\<close>

theorem teardown_error_iff_witness:
  "sample_extract (ustr ''teardown * abc'') = Inr ([[ustr ''*'']], ustr ''teardown abc'') \<and>
   code_segment (ustr ''teardown abc'') = ustr ''abc'' \<and>
   \<not> all_decimal (ustr ''abc'') \<and>
   teardown sample_python sample_extract sample_match sample_reactor ''cli''
       (ustr ''teardown * abc'') =
     ([AnswerError ''cli''], Inr False)"
proof -
  have h1: "sample_extract (ustr ''teardown * abc'') = Inr ([[ustr ''*'']], ustr ''teardown abc'')"
    by code_simp
  have cs: "code_segment (ustr ''teardown abc'') = ustr ''abc''"
    by code_simp
  have h2: "\<not> all_decimal (ustr ''abc'')"
    by code_simp
  have h3: "decimal_char c"
    if "c \<in> set (code_segment (ustr ''teardown abc''))" "isdigit_char sample_python c" for c
  proof -
    have "c = 97 \<or> c = 98 \<or> c = 99"
      using that(1) unfolding cs by (simp add: ustr_def)
    with that(2) show ?thesis
      by (auto simp: isdigit_char_def digit_value_def decimal_char_def sample_python_def)
  qed
  have h4: "length (code_segment (ustr ''teardown abc'')) \<le> max_str_digits sample_python"
    by code_simp
  have "teardown sample_python sample_extract sample_match sample_reactor ''cli''
      (ustr ''teardown * abc'') = ([AnswerError ''cli''], Inr False)"
    using teardown_error_iff [of sample_extract "ustr ''teardown * abc''" sample_python "''cli''"
        sample_match sample_reactor] h1 h2 h3 h4 cs
    by auto
  with h1 h2 cs show ?thesis
    by (intro conjI)
qed

section \<open>Properties of \<^verbatim>\<open>show neighbor\<close>\<close>







lemma remove1_once:
  "count_list ws m \<le> 1 \<Longrightarrow> b = (m \<in> set ws) \<Longrightarrow>
   (if b then remove1 m ws else ws) = filter (\<lambda>w. w \<noteq> m) ws"
proof (induction ws arbitrary: b)
  case Nil
  then show ?case by simp
next
  case (Cons w ws)
  show ?case
  proof (cases "w = m")
    case True
    with Cons.prems have "count_list ws m = 0"
      by simp
    then have "m \<notin> set ws"
      by (simp add: count_list_0_iff)
    then have "filter (\<lambda>w. w \<noteq> m) ws = ws"
      by (auto simp: filter_id_conv)
    with True Cons.prems show ?thesis
      by simp
  next
    case False
    with Cons.prems Cons.IH [of "m \<in> set ws"] show ?thesis
      by auto
  qed
qed

lemma count_list_filter_le: "count_list (filter P ws) m \<le> count_list ws m"
  by (induction ws) auto

lemma remove_modifiers:
  assumes "\<forall>m\<in>set modifiers. count_list ws m \<le> 1"
  shows "(let summary = (''summary'' \<in> set ws);
              extensive = (''extensive'' \<in> set ws);
              configuration = (''configuration'' \<in> set ws);
              jason = (''json'' \<in> set ws);
              ws = (if summary then remove1 ''summary'' ws else ws);
              ws = (if extensive then remove1 ''extensive'' ws else ws);
              ws = (if configuration then remove1 ''configuration'' ws else ws);
              ws = (if jason then remove1 ''json'' ws else ws)
          in f summary extensive configuration jason ws) =
         f (''summary'' \<in> set ws) (''extensive'' \<in> set ws) (''configuration'' \<in> set ws)
           (''json'' \<in> set ws) (filter (\<lambda>w. w \<notin> set modifiers) ws)"
proof -
  let ?w1 = "filter (\<lambda>w. w \<noteq> ''summary'') ws"
  let ?w2 = "filter (\<lambda>w. w \<noteq> ''extensive'') ?w1"
  let ?w3 = "filter (\<lambda>w. w \<noteq> ''configuration'') ?w2"
  let ?w4 = "filter (\<lambda>w. w \<noteq> ''json'') ?w3"
  from assms have c: "count_list ws ''summary'' \<le> 1" "count_list ws ''extensive'' \<le> 1"
    "count_list ws ''configuration'' \<le> 1" "count_list ws ''json'' \<le> 1"
    by (simp_all add: modifiers_def)
  have 1: "(if ''summary'' \<in> set ws then remove1 ''summary'' ws else ws) = ?w1"
    by (rule remove1_once [OF c(1)]) simp
  have "count_list ?w1 ''extensive'' \<le> 1"
    by (rule order_trans [OF count_list_filter_le c(2)])
  then have 2: "(if ''extensive'' \<in> set ws then remove1 ''extensive'' ?w1 else ?w1) = ?w2"
    by (rule remove1_once) simp
  have "count_list ?w2 ''configuration'' \<le> 1"
    by (rule order_trans [OF count_list_filter_le order_trans [OF count_list_filter_le c(3)]])
  then have 3: "(if ''configuration'' \<in> set ws then remove1 ''configuration'' ?w2 else ?w2) = ?w3"
    by (rule remove1_once) simp
  have "count_list ?w3 ''json'' \<le> 1"
    by (rule order_trans [OF count_list_filter_le
          order_trans [OF count_list_filter_le order_trans [OF count_list_filter_le c(4)]]])
  then have 4: "(if ''json'' \<in> set ws then remove1 ''json'' ?w3 else ?w3) = ?w4"
    by (rule remove1_once) simp
  have f: "?w4 = filter (\<lambda>w. w \<notin> set modifiers) ws"
    by (simp add: modifiers_def conj_commute conj_left_commute)
  show ?thesis
    unfolding Let_def 1 2 3 4 f ..
qed

lemma show_neighbor_words:
  "take 2 ws = [''show'', ''neighbor''] \<Longrightarrow> filter (\<lambda>w. w \<notin> set modifiers) ws \<noteq> []"
  by (cases ws) (auto simp: modifiers_def)

text \<open>
  C7, as stated, fails: \<^verbatim>\<open>words.remove\<close> removes one occurrence only. In
  \<^verbatim>\<open>show neighbor 10.0.0.1 summary extensive extensive\<close> the second \<open>extensive\<close> stays
  as the last word and is taken as the filter: the summary is scheduled for the peers whose
  IP is \<open>extensive\<close>, and has no row.
\<close>

theorem show_neighbor_repeated_counterexample:
  "show_neighbor (\<lambda>p. ''[]'') sample_reactor ''cli''
       ''show neighbor 10.0.0.1 summary extensive extensive'' =
     ([schedule ''cli'' ''show neighbor 10.0.0.1 summary extensive extensive''
         (callback_summary sample_reactor ''cli'' ''extensive'')],
      Inr (Some True)) \<and>
   callback_summary sample_reactor ''cli'' ''extensive'' =
     ([Write ''cli'' ''Peer            AS        up/down state       |     #sent     #recvd'',
       AnswerDone ''cli''], None) \<and>
   callback_summary sample_reactor ''cli'' ''10.0.0.1'' =
     ([Write ''cli'' ''Peer            AS        up/down state       |     #sent     #recvd'',
       Write ''cli'' ''10.0.0.1        65000     1:01:01 established           5          7'',
       Yield, AnswerDone ''cli''], None)"
  by code_simp

text \<open>
  C7, amended. For a command in which no modifier occurs twice, at least one modifier
  occurs and a word that is no modifier remains (as in every command that starts with
  \<^verbatim>\<open>show neighbor\<close>), \<^verbatim>\<open>show_neighbor\<close> schedules exactly one generator and returns
  \<^verbatim>\<open>True\<close>: the json one if \<open>json\<close> occurs, else the summary one if \<open>summary\<close>
  occurs, else the extensive one if \<open>extensive\<close> occurs, else the configuration one. The
  filter is the last word that is no modifier (none if that word is \<open>neighbor\<close>): the
  other modifiers are ignored.
\<close>

theorem show_neighbor_precedence:
  assumes "\<forall>m\<in>set modifiers. count_list (str_split command) m \<le> 1"
    and "\<exists>m\<in>set modifiers. m \<in> set (str_split command)"
    and "filter (\<lambda>w. w \<notin> set modifiers) (str_split command) \<noteq> []"
  shows "show_neighbor dumps reactor service command =
     (let words = str_split command;
          rest = filter (\<lambda>w. w \<notin> set modifiers) words;
          limit = (if last rest \<noteq> ''neighbor'' then last rest else [])
      in ([schedule service command
             (if ''json'' \<in> set words then callback_json dumps reactor service limit
              else if ''summary'' \<in> set words then callback_summary reactor service limit
              else if ''extensive'' \<in> set words then callback_extensive reactor service limit
              else callback_configuration reactor service limit)],
          Inr (Some True)))"
proof -
  from assms(2) have m: "''json'' \<in> set (str_split command) \<or> ''summary'' \<in> set (str_split command) \<or>
      ''extensive'' \<in> set (str_split command) \<or> ''configuration'' \<in> set (str_split command)"
    by (auto simp: modifiers_def)
  have "show_neighbor dumps reactor service command =
      (let words = str_split command in
       let summary = (''summary'' \<in> set words);
           extensive = (''extensive'' \<in> set words);
           configuration = (''configuration'' \<in> set words);
           jason = (''json'' \<in> set words);
           words = (if summary then remove1 ''summary'' words else words);
           words = (if extensive then remove1 ''extensive'' words else words);
           words = (if configuration then remove1 ''configuration'' words else words);
           words = (if jason then remove1 ''json'' words else words)
       in (\<lambda>summary extensive configuration jason words.
         if words = [] then ([], Inl IndexError)
         else
           (let limit = (if last words \<noteq> ''neighbor'' then last words else [])
            in if jason
                 then ([schedule service command (callback_json dumps reactor service limit)],
                       Inr (Some True))
               else if summary
                 then ([schedule service command (callback_summary reactor service limit)],
                       Inr (Some True))
               else if extensive
                 then ([schedule service command (callback_extensive reactor service limit)],
                       Inr (Some True))
               else if configuration
                 then ([schedule service command (callback_configuration reactor service limit)],
                       Inr (Some True))
               else ([Write service ''please specify summary, extensive or configuration'',
                      Write service
                        ''you can filter by peer ip address adding it after the word neighbor'',
                      AnswerDone service],
                     Inr None))) summary extensive configuration jason words)"
    by (simp only: show_neighbor_def Let_def)
  also have "\<dots> =
     (let words = str_split command;
          rest = filter (\<lambda>w. w \<notin> set modifiers) words;
          limit = (if last rest \<noteq> ''neighbor'' then last rest else [])
      in ([schedule service command
             (if ''json'' \<in> set words then callback_json dumps reactor service limit
              else if ''summary'' \<in> set words then callback_summary reactor service limit
              else if ''extensive'' \<in> set words then callback_extensive reactor service limit
              else callback_configuration reactor service limit)],
          Inr (Some True)))"
    unfolding Let_def [of "str_split command"] remove_modifiers [OF assms(1)]
    using m assms(3) by (auto simp: Let_def)
  finally show ?thesis .
qed

text \<open>
  \<^verbatim>\<open>show neighbor 10.0.0.1 extensive summary\<close>: the summary is scheduled, filtered by
  10.0.0.1.
\<close>

theorem show_neighbor_precedence_witness:
  "map (count_list (str_split ''show neighbor 10.0.0.1 extensive summary'')) modifiers = [1, 1, 0, 0] \<and>
   filter (\<lambda>w. w \<notin> set modifiers) (str_split ''show neighbor 10.0.0.1 extensive summary'') =
     [''show'', ''neighbor'', ''10.0.0.1''] \<and>
   show_neighbor (\<lambda>p. ''[]'') sample_reactor ''cli'' ''show neighbor 10.0.0.1 extensive summary'' =
     ([Schedule ''cli'' ''show neighbor 10.0.0.1 extensive summary''
         [Write ''cli'' ''Peer            AS        up/down state       |     #sent     #recvd'',
          Write ''cli'' ''10.0.0.1        65000     1:01:01 established           5          7'',
          Yield, AnswerDone ''cli'']
         None],
      Inr (Some True))"
proof -
  let ?c = "''show neighbor 10.0.0.1 extensive summary''"
  have h1: "\<forall>m\<in>set modifiers. count_list (str_split ?c) m \<le> 1"
    by code_simp
  have h2: "\<exists>m\<in>set modifiers. m \<in> set (str_split ?c)"
    by code_simp
  have h0: "map (count_list (str_split ?c)) modifiers = [1, 1, 0, 0]"
    by code_simp
  have h3: "filter (\<lambda>w. w \<notin> set modifiers) (str_split ?c) = [''show'', ''neighbor'', ''10.0.0.1'']"
    by code_simp
  then have h3': "filter (\<lambda>w. w \<notin> set modifiers) (str_split ?c) \<noteq> []"
    by simp
  note show_neighbor_precedence [OF h1 h2 h3', of "\<lambda>p. ''[]''" sample_reactor "''cli''"]
  also have "(let words = str_split ?c;
          rest = filter (\<lambda>w. w \<notin> set modifiers) words;
          limit = (if last rest \<noteq> ''neighbor'' then last rest else [])
      in ([schedule ''cli'' ?c
             (if ''json'' \<in> set words then callback_json (\<lambda>p. ''[]'') sample_reactor ''cli'' limit
              else if ''summary'' \<in> set words then callback_summary sample_reactor ''cli'' limit
              else if ''extensive'' \<in> set words then callback_extensive sample_reactor ''cli'' limit
              else callback_configuration sample_reactor ''cli'' limit)],
          Inr (Some True) :: exc + bool option)) =
     ([Schedule ''cli'' ?c
         [Write ''cli'' ''Peer            AS        up/down state       |     #sent     #recvd'',
          Write ''cli'' ''10.0.0.1        65000     1:01:01 established           5          7'',
          Yield, AnswerDone ''cli'']
         None],
      Inr (Some True))"
    by code_simp
  finally have "show_neighbor (\<lambda>p. ''[]'') sample_reactor ''cli'' ?c =
     ([Schedule ''cli'' ?c
         [Write ''cli'' ''Peer            AS        up/down state       |     #sent     #recvd'',
          Write ''cli'' ''10.0.0.1        65000     1:01:01 established           5          7'',
          Yield, AnswerDone ''cli'']
         None],
      Inr (Some True))" .
  with h0 h3 show ?thesis
    by (intro conjI)
qed

end
